theory Spec2Isabelle
  imports
    Complex_Main
    "HOL-Library.Char_ord"
    "HOL-Library.List_Lexorder"
    "HOL-Library.Product_Lexorder"
begin

section \<open>Values shared by the parsers and the analytics\<close>

text \<open>
  A timestamp is an instant, counted in nanoseconds since the Unix epoch (the resolution
  of a pandas Timestamp). A float is a real number or NaN, with \<open>None\<close> for NaN (and for NaT
  in a timestamp); rounding error and the infinities of IEEE arithmetic are not modelled.
  Python's \<open>None\<close> is kept apart from NaN wherever the code can hold it: in the bounds of
  the safe range and in the correlation that is returned.

  The exceptions that are values of the model:
  \<^item> IndexError, of a positional column index past the last column;
  \<^item> ValueError, of \<open>rolling\<close> for a window that is negative or smaller than \<open>min_periods\<close>;
  \<^item> AttributeError, of the accessor \<open>.dt\<close> on a column that is not a datetime column;
  \<^item> TypeError, of a comparison of a float column with a column that holds \<open>None\<close>.
\<close>

type_synonym timestamp = int
type_synonym float = "real option"

datatype error = IndexError | ValueError | AttributeError | TypeError

subsection \<open>Strings\<close>

text \<open>
  Strings are byte strings. \<open>contains\<close> is the test \<open>sub in s\<close> and \<open>remove_commas\<close> is
  \<open>s.replace(",", "")\<close>. Python's \<open>str.strip\<close> and \<open>str.lower\<close>, which know all of
  Unicode, are parameters (see the library below); \<open>ascii_strip\<close> and \<open>ascii_lower\<close> are
  what they do on ASCII strings, for the sample inputs.
\<close>

definition is_space :: "char \<Rightarrow> bool" where
  "is_space c \<longleftrightarrow> c \<in> set [CHR '' '', CHR 0x09, CHR 0x0A, CHR 0x0B, CHR 0x0C, CHR 0x0D,
                              CHR 0x1C, CHR 0x1D, CHR 0x1E, CHR 0x1F]"

definition ascii_strip :: "string \<Rightarrow> string" where
  "ascii_strip s = rev (dropWhile is_space (rev (dropWhile is_space s)))"

definition lower_char :: "char \<Rightarrow> char" where
  "lower_char c =
     (case map_of (zip ''ABCDEFGHIJKLMNOPQRSTUVWXYZ'' ''abcdefghijklmnopqrstuvwxyz'') c of
        Some d \<Rightarrow> d
      | None \<Rightarrow> c)"

definition ascii_lower :: "string \<Rightarrow> string" where
  "ascii_lower s = map lower_char s"

fun contains :: "string \<Rightarrow> string \<Rightarrow> bool" where
  "contains sub [] = (sub = [])"
| "contains sub (c # cs) = (take (length sub) (c # cs) = sub \<or> contains sub cs)"

definition remove_commas :: "string \<Rightarrow> string" where
  "remove_commas s = filter (\<lambda>c. c \<noteq> CHR '','') s"

subsection \<open>The library functions the code calls\<close>

text \<open>
  The functions of Python and pandas whose results depend on tables of the library
  (Unicode, date formats, time zones, the sorting algorithm) are parameters; every theorem
  holds for all of them.
  \<^item> \<open>strip\<close> and \<open>lower\<close> are \<open>str.strip\<close> and \<open>str.lower\<close>.
  \<^item> \<open>to_datetime_series\<close> is \<open>pd.to_datetime(series, dayfirst=True, errors="coerce")\<close>: one
    entry for each cell, \<open>None\<close> for NaT. It sees the whole column, as the format is inferred
    from it.
  \<^item> \<open>to_datetime\<close> is the same call on one string.
  \<^item> \<open>tz_localize\<close> is \<open>tz_localize(TZ, nonexistent="shift_forward", ambiguous="NaT")\<close>, from
    a naive wall-clock time to an instant.
  \<^item> \<open>to_numeric\<close> is \<open>pd.to_numeric(_, errors="coerce")\<close>.
  \<^item> \<open>sort_block\<close> is \<open>sort_values("timestamp")\<close> on the rows of a block, with the default
    quicksort: the order that it gives to rows of the same timestamp is the library's.
  \<^item> \<open>param_re\<close> is \<open>PARAM_RE.match\<close>, giving groups 1 and 2 of a match.
  \<^item> \<open>py_float\<close> is \<open>float\<close>: \<open>None\<close> where it raises ValueError, \<open>Some None\<close> for nan.
  \<^item> \<open>dt_date\<close> is \<open>.dt.date\<close>: the calendar date of an instant in the zone of the frame, as
    a day number.
\<close>

record library =
  strip :: "string \<Rightarrow> string"
  lower :: "string \<Rightarrow> string"
  to_datetime_series :: "string list \<Rightarrow> timestamp option list"
  to_datetime :: "string \<Rightarrow> timestamp option"
  tz_localize :: "timestamp \<Rightarrow> timestamp option"
  to_numeric :: "string \<Rightarrow> float"
  sort_block :: "(timestamp \<times> real) list \<Rightarrow> (timestamp \<times> real) list"
  param_re :: "string \<Rightarrow> (string \<times> string) option"
  py_float :: "string \<Rightarrow> float option"
  dt_date :: "timestamp \<Rightarrow> int"

subsection \<open>Frames\<close>

text \<open>
  The table \<open>raw = pd.read_csv(path, dtype=str).fillna("")\<close>, the input of both parsers:
  \<open>ncols\<close> columns, and rows of \<open>ncols\<close> cells each, every cell a string. The first line
  of the file is not among the rows: \<open>read_csv\<close> takes it for the column names. A cell that
  is empty or one of the markers \<open>na_values\<close> in the file is read as missing, and is the
  empty string after \<open>fillna("")\<close>: \<open>read_csv_frame\<close> says that a table is one that
  \<open>read_csv\<close> can give. \<open>cell r i\<close> reads a cell of a row.
\<close>

record raw_table =
  ncols :: nat
  rows :: "string list list"

definition na_values :: "string list" where
  "na_values =
     [''#N/A'', ''#N/A N/A'', ''#NA'', ''-1.#IND'', ''-1.#QNAN'', ''-NaN'', ''-nan'',
      ''1.#IND'', ''1.#QNAN'', ''<NA>'', ''N/A'', ''NA'', ''NULL'', ''NaN'', ''None'',
      ''n/a'', ''nan'', ''null'']"

definition read_csv_frame :: "raw_table \<Rightarrow> bool" where
  "read_csv_frame raw \<longleftrightarrow>
     list_all (\<lambda>r. length r = ncols raw \<and> list_all (\<lambda>c. c \<notin> set na_values) r) (rows raw)"

definition cell :: "string list \<Rightarrow> nat \<Rightarrow> string" where
  "cell r i = (if i < length r then r ! i else [])"

text \<open>
  A frame with typed columns is \<open>Frame\<close>, with the names of its columns and its rows, a
  record for each row. \<open>Columns_Only\<close> is \<open>pd.DataFrame(columns=[...])\<close>: the names of the
  columns and no row, every column of the dtype object, so that \<open>.dt\<close> raises on it.

  The column \<open>value\<close> is the field \<open>val\<close>, and where two frames have a column of the same
  name, the fields of the derived frame carry a prefix: \<open>c_\<close> in the compliance rollup,
  \<open>ev_\<close> in the breach events (\<open>ev_start\<close>, \<open>ev_end\<close>), \<open>d_\<close> in the daily rollup, \<open>j_\<close> in
  the joined table and \<open>an_\<close> in the anomaly table.
\<close>

datatype 'a frame = Columns_Only "string list" | Frame "string list" "'a list"

fun columns :: "'a frame \<Rightarrow> string list" where
  "columns (Columns_Only cs) = cs"
| "columns (Frame cs rs) = cs"

fun records :: "'a frame \<Rightarrow> 'a list" where
  "records (Columns_Only cs) = []"
| "records (Frame cs rs) = rs"

record stamped =
  timestamp :: timestamp

record flow_reading = stamped +
  totalizer :: real
  consumption :: real

definition flow_columns :: "string list" where
  "flow_columns = [''timestamp'', ''totalizer'', ''consumption'']"

text \<open>\<open>drop_duplicates(subset=[key])\<close>: the first row of each key stays.\<close>

fun drop_duplicates_from :: "('a \<Rightarrow> 'k) \<Rightarrow> 'k list \<Rightarrow> 'a list \<Rightarrow> 'a list" where
  "drop_duplicates_from key seen [] = []"
| "drop_duplicates_from key seen (x # xs) =
     (if key x \<in> set seen then drop_duplicates_from key seen xs
      else x # drop_duplicates_from key (key x # seen) xs)"

definition drop_duplicates :: "('a \<Rightarrow> 'k) \<Rightarrow> 'a list \<Rightarrow> 'a list" where
  "drop_duplicates key xs = drop_duplicates_from key [] xs"

section \<open>The flow parser (parsers.py)\<close>

definition is_header :: "library \<Rightarrow> string list \<Rightarrow> bool" where
  "is_header lib r \<longleftrightarrow>
     lower lib (strip lib (cell r 0)) = ''date'' \<and>
     lower lib (strip lib (cell r 1)) = ''time'' \<and>
     contains ''totalizer'' (lower lib (strip lib (cell r 2)))"

definition header_idxs :: "library \<Rightarrow> raw_table \<Rightarrow> nat list" where
  "header_idxs lib raw =
     filter (\<lambda>i. is_header lib (rows raw ! i)) [0..<length (rows raw)] @ [length (rows raw)]"

text \<open>
  The loop over \<open>range(len(header_idxs) - 1)\<close>: the bounds \<open>(start, end)\<close> of each block,
  without the blocks that \<open>start >= end\<close> skips.
\<close>

fun block_bounds :: "nat list \<Rightarrow> (nat \<times> nat) list" where
  "block_bounds (a # b # rest) =
     (if a + 1 \<ge> b then block_bounds (b # rest) else (a + 1, b) # block_bounds (b # rest))"
| "block_bounds _ = []"

definition dropna :: "(timestamp option \<times> float) list \<Rightarrow> (timestamp \<times> real) list" where
  "dropna xs =
     List.map_filter (\<lambda>(t, v). case t of None \<Rightarrow> None
                               | Some t' \<Rightarrow> (case v of None \<Rightarrow> None | Some v' \<Rightarrow> Some (t', v'))) xs"

definition parse_block :: "library \<Rightarrow> string list list \<Rightarrow> (timestamp \<times> real) list" where
  "parse_block lib block =
     (let kept = filter (\<lambda>r. strip lib (cell r 0) \<noteq> [] \<and> strip lib (cell r 1) \<noteq> [] \<and>
                            strip lib (cell r 2) \<noteq> []) block;
          ts = to_datetime_series lib
                 (map (\<lambda>r. strip lib (cell r 0) @ '' '' @ strip lib (cell r 1)) kept);
          stamps = map (\<lambda>t. Option.bind t (tz_localize lib)) ts;
          tot = map (\<lambda>r. to_numeric lib (remove_commas (cell r 2))) kept
      in sort_block lib (dropna (zip stamps tot)))"

text \<open>\<open>diff\<close>, the assignment to the negative entries, and \<open>fillna(0.0)\<close>.\<close>

definition diff :: "real list \<Rightarrow> float list" where
  "diff xs = (case xs of [] \<Rightarrow> [] | x # rest \<Rightarrow> None # map (\<lambda>(a, b). Some (b - a)) (zip xs rest))"

definition clamp_negative :: "float \<Rightarrow> float" where
  "clamp_negative c = (case c of None \<Rightarrow> None | Some v \<Rightarrow> if v < 0 then Some 0 else Some v)"

definition fillna0 :: "float \<Rightarrow> real" where
  "fillna0 c = (case c of None \<Rightarrow> 0 | Some v \<Rightarrow> v)"

definition with_consumption :: "(timestamp \<times> real) list \<Rightarrow> flow_reading list" where
  "with_consumption df =
     map (\<lambda>((t, v), c). \<lparr>timestamp = t, totalizer = v, consumption = c\<rparr>)
       (zip df (map (fillna0 \<circ> clamp_negative) (diff (map snd df))))"

text \<open>
  After \<open>drop_duplicates\<close> the timestamps are distinct, so that every sorting algorithm
  gives the order of \<open>sort_key\<close>.
\<close>

definition load_flow_csv :: "library \<Rightarrow> raw_table \<Rightarrow> error + flow_reading frame" where
  "load_flow_csv lib raw =
     (if ncols raw < 3 then Inl IndexError
      else
        let blocks = map (\<lambda>(s, e). parse_block lib (take (e - s) (drop s (rows raw))))
                       (block_bounds (header_idxs lib raw))
        in if blocks = [] then Inr (Columns_Only flow_columns)
           else Inr (Frame flow_columns
                       (with_consumption (sort_key fst (drop_duplicates fst (concat blocks))))))"

section \<open>The quality parser (parsers.py)\<close>

text \<open>
  A bound of the safe range in a frame: an entry of a float column, or \<open>None\<close> in a column of
  the dtype object.
\<close>

datatype bound = PyNone | Float float

record quality_reading = stamped +
  parameter :: string
  val :: float
  safe_min :: bound
  safe_max :: bound

definition quality_columns :: "string list" where
  "quality_columns = [''timestamp'', ''parameter'', ''value'', ''safe_min'', ''safe_max'']"

text \<open>\<open>str.split(sep)\<close> for a separator that is not empty.\<close>

fun split_acc :: "string \<Rightarrow> string \<Rightarrow> string \<Rightarrow> string list" where
  "split_acc sep acc [] = [rev acc]"
| "split_acc sep acc (c # cs) =
     (if sep \<noteq> [] \<and> take (length sep) (c # cs) = sep
      then rev acc # split_acc sep [] (drop (length sep) (c # cs))
      else split_acc sep (c # acc) cs)"

definition py_split :: "string \<Rightarrow> string \<Rightarrow> string list" where
  "py_split sep s = split_acc sep [] s"

text \<open>
  \<open>_parse_safe_range\<close>: both bounds as floats, or \<open>(None, None)\<close> when the text does not
  split in two at \<open>to\<close> or when \<open>float\<close> raises on a part. Here \<open>None\<close> is Python's None and
  \<open>Some x\<close> is the float \<open>x\<close>.
\<close>

definition parse_safe_range :: "library \<Rightarrow> string \<Rightarrow> float option \<times> float option" where
  "parse_safe_range lib text =
     (let parts = py_split ''to'' text
      in if length parts \<noteq> 2 then (None, None)
         else (case py_float lib (strip lib (parts ! 0)) of
                 None \<Rightarrow> (None, None)
               | Some a \<Rightarrow> (case py_float lib (strip lib (parts ! 1)) of
                             None \<Rightarrow> (None, None)
                           | Some b \<Rightarrow> (Some a, Some b))))"

text \<open>
  The variables of the loop of \<open>load_quality_csv\<close>. An entry of \<open>out\<close> is the dictionary
  that the loop appends: timestamp (NaT when the local time is ambiguous), parameter, value,
  safe_min, safe_max.
\<close>

type_synonym out_row = "timestamp option \<times> string \<times> float \<times> float option \<times> float option"

record parser_state =
  out :: "out_row list"
  current_param :: "string option"
  cur_safe_min :: "float option"
  cur_safe_max :: "float option"
  in_table :: bool

definition initial_state :: parser_state where
  "initial_state =
     \<lparr>out = [], current_param = None, cur_safe_min = None, cur_safe_max = None, in_table = False\<rparr>"

text \<open>The truth value of \<open>current_param\<close>: neither None nor the empty string.\<close>

definition truthy :: "string option \<Rightarrow> bool" where
  "truthy p \<longleftrightarrow> (case p of None \<Rightarrow> False | Some s \<Rightarrow> s \<noteq> [])"

definition non_empty_cells :: "library \<Rightarrow> string list \<Rightarrow> string list" where
  "non_empty_cells lib r = filter (\<lambda>c. c \<noteq> []) (map (strip lib) r)"

text \<open>One turn of the loop \<open>for r in rows\<close>.\<close>

definition scan_row :: "library \<Rightarrow> parser_state \<Rightarrow> string list \<Rightarrow> parser_state" where
  "scan_row lib st r =
     (let cells = non_empty_cells lib r
      in if cells = [] then st
         else (case param_re lib (cells ! 0) of
                 Some (g1, g2) \<Rightarrow>
                   (let (lo, hi) = parse_safe_range lib (strip lib g2)
                    in st\<lparr>current_param := Some (strip lib g1), cur_safe_min := lo,
                          cur_safe_max := hi, in_table := False\<rparr>)
               | None \<Rightarrow>
                   if truthy (current_param st) \<and> length cells \<ge> 3 \<and>
                      lower lib (cells ! 0) = ''date'' \<and> lower lib (cells ! 1) = ''time''
                   then st\<lparr>in_table := True\<rparr>
                   else (case current_param st of
                           None \<Rightarrow> st
                         | Some p \<Rightarrow>
                             if in_table st \<and> p \<noteq> [] then
                               (if length cells < 3 then st
                                else (case to_datetime lib (cells ! 0 @ '' '' @ cells ! 1) of
                                        None \<Rightarrow> st
                                      | Some ts \<Rightarrow>
                                          st\<lparr>out := out st @
                                            [(tz_localize lib ts, p,
                                              to_numeric lib (remove_commas (cells ! 2)),
                                              cur_safe_min st, cur_safe_max st)]\<rparr>))
                             else st)))"

text \<open>
  \<open>pd.DataFrame(out)\<close>: a column of bounds that are all \<open>None\<close> stays a column of \<open>None\<close>, of
  the dtype object; in a column that holds a float, \<open>None\<close> becomes NaN.
\<close>

definition to_bound :: "bool \<Rightarrow> float option \<Rightarrow> bound" where
  "to_bound all_none x =
     (if all_none then PyNone else Float (case x of None \<Rightarrow> None | Some v \<Rightarrow> v))"

definition data_frame ::
  "out_row list \<Rightarrow> (timestamp option \<times> string \<times> float \<times> bound \<times> bound) list" where
  "data_frame rs =
     (let min_none = list_all (\<lambda>(t, p, v, lo, hi). lo = None) rs;
          max_none = list_all (\<lambda>(t, p, v, lo, hi). hi = None) rs
      in map (\<lambda>(t, p, v, lo, hi). (t, p, v, to_bound min_none lo, to_bound max_none hi)) rs)"

text \<open>\<open>dropna(subset=["timestamp"])\<close>.\<close>

definition dropna_timestamp ::
  "(timestamp option \<times> string \<times> float \<times> bound \<times> bound) list \<Rightarrow> quality_reading list" where
  "dropna_timestamp xs =
     List.map_filter (\<lambda>(t, p, v, lo, hi). case t of None \<Rightarrow> None
        | Some t' \<Rightarrow> Some \<lparr>timestamp = t', parameter = p, val = v, safe_min = lo, safe_max = hi\<rparr>) xs"

definition load_quality_csv :: "library \<Rightarrow> raw_table \<Rightarrow> quality_reading frame" where
  "load_quality_csv lib raw =
     (let rs = out (foldl (scan_row lib) initial_state (rows raw))
      in if rs = [] then Columns_Only quality_columns
         else Frame quality_columns
                (sort_key (\<lambda>r. (parameter r, timestamp r)) (dropna_timestamp (data_frame rs))))"

section \<open>The aggregation engine (analytics.py)\<close>

subsection \<open>Columns\<close>

text \<open>Comparisons of floats: a comparison with NaN is false.\<close>

definition ge_f :: "float \<Rightarrow> float \<Rightarrow> bool" where
  "ge_f a b \<longleftrightarrow> (case a of None \<Rightarrow> False | Some x \<Rightarrow> (case b of None \<Rightarrow> False | Some y \<Rightarrow> x \<ge> y))"

definition le_f :: "float \<Rightarrow> float \<Rightarrow> bool" where
  "le_f a b \<longleftrightarrow> (case a of None \<Rightarrow> False | Some x \<Rightarrow> (case b of None \<Rightarrow> False | Some y \<Rightarrow> x \<le> y))"

definition gt_f :: "float \<Rightarrow> float \<Rightarrow> bool" where
  "gt_f a b \<longleftrightarrow> (case a of None \<Rightarrow> False | Some x \<Rightarrow> (case b of None \<Rightarrow> False | Some y \<Rightarrow> x > y))"

text \<open>
  The column \<open>(q["value"] >= q["safe_min"]) & (q["value"] <= q["safe_max"])\<close>. The
  comparison of the float column \<open>value\<close> with a column that holds \<open>None\<close> raises TypeError;
  on float columns the entry of a reading is \<open>in_range\<close>, whose case \<open>PyNone\<close> is never
  reached.
\<close>

definition in_range :: "quality_reading \<Rightarrow> bool" where
  "in_range r \<longleftrightarrow>
     (case safe_min r of
        PyNone \<Rightarrow> False
      | Float lo \<Rightarrow> (case safe_max r of
                       PyNone \<Rightarrow> False
                     | Float hi \<Rightarrow> ge_f (val r) lo \<and> le_f (val r) hi))"

definition in_range_column :: "quality_reading list \<Rightarrow> error + bool list" where
  "in_range_column q =
     (if list_ex (\<lambda>r. safe_min r = PyNone) q then Inl TypeError
      else if list_ex (\<lambda>r. safe_max r = PyNone) q then Inl TypeError
      else Inr (map in_range q))"

text \<open>
  \<open>groupby(key)\<close>: the keys in ascending order, each with its rows in their order in the
  frame.
\<close>

definition groupby :: "('a \<Rightarrow> 'k::linorder) \<Rightarrow> 'a list \<Rightarrow> ('k \<times> 'a list) list" where
  "groupby key xs = map (\<lambda>k. (k, filter (\<lambda>x. key x = k) xs)) (sort (remdups (map key xs)))"

text \<open>The reducers \<open>mean\<close>, \<open>min\<close> and \<open>max\<close> of a float column skip NaN.\<close>

definition notna :: "float list \<Rightarrow> real list" where
  "notna xs = List.map_filter id xs"

definition mean :: "real list \<Rightarrow> real" where
  "mean xs = sum_list xs / real (length xs)"

definition nanmean :: "float list \<Rightarrow> float" where
  "nanmean xs = (if notna xs = [] then None else Some (mean (notna xs)))"

definition nanmin :: "float list \<Rightarrow> float" where
  "nanmin xs = (if notna xs = [] then None else Some (Min (set (notna xs))))"

definition nanmax :: "float list \<Rightarrow> float" where
  "nanmax xs = (if notna xs = [] then None else Some (Max (set (notna xs))))"

subsection \<open>Daily flow rollup\<close>

record daily_row =
  date :: int
  total_consumption :: real
  mean_interval :: real
  p95_interval :: real
  d_readings :: nat

text \<open>\<open>np.nanpercentile(s, q)\<close> with linear interpolation, on a column that is not empty.\<close>

definition percentile :: "real list \<Rightarrow> real \<Rightarrow> real" where
  "percentile xs q =
     (let s = sort xs;
          pos = q / 100 * real (length s - 1);
          lo = nat \<lfloor>pos\<rfloor>;
          hi = min (lo + 1) (length s - 1)
      in s ! lo + (pos - real lo) * (s ! hi - s ! lo))"

text \<open>
  \<open>_add_time_parts\<close> reads \<open>z["timestamp"].dt\<close>, which raises AttributeError on a frame of
  columns only. The dates of the groups are distinct, so that every sorting algorithm gives
  the order of \<open>sort_key\<close>.
\<close>

definition flow_daily :: "library \<Rightarrow> flow_reading frame \<Rightarrow> error + daily_row list" where
  "flow_daily lib flow =
     (case flow of
        Columns_Only cs \<Rightarrow> Inl AttributeError
      | Frame cs rs \<Rightarrow>
          Inr (sort_key date
                 (map (\<lambda>(d, g). \<lparr>date = d,
                                  total_consumption = sum_list (map consumption g),
                                  mean_interval = mean (map consumption g),
                                  p95_interval = percentile (map consumption g) 95,
                                  d_readings = length g\<rparr>)
                    (groupby (\<lambda>r. dt_date lib (timestamp r)) rs))))"

subsection \<open>Compliance rollup\<close>

record compliance_row =
  c_parameter :: string
  c_date :: int
  pct_in_range :: float
  breaches :: int
  c_readings :: nat
  avg_value :: float
  c_min_value :: float
  c_max_value :: float

text \<open>The mean of a boolean column: the fraction of its entries that are true.\<close>

definition mean_bool :: "bool list \<Rightarrow> real" where
  "mean_bool s = real (length (filter id s)) / real (length s)"

text \<open>The reducers of \<open>agg\<close>, on the group \<open>g\<close> of the key \<open>(p, d)\<close>.\<close>

definition compliance_agg :: "string \<times> int \<Rightarrow> quality_reading list \<Rightarrow> compliance_row" where
  "compliance_agg k g =
     (let s = map in_range g
      in \<lparr>c_parameter = fst k, c_date = snd k,
          pct_in_range = (if length s \<noteq> 0 then Some (100 * mean_bool s) else None),
          breaches = int (length (filter Not s)),
          c_readings = length s,
          avg_value = nanmean (map val g),
          c_min_value = nanmin (map val g),
          c_max_value = nanmax (map val g)\<rparr>)"

text \<open>
  The column \<open>in_range\<close> comes first, and raises TypeError on a bound that is \<open>None\<close>; then
  \<open>q["timestamp"].dt.date\<close> raises AttributeError on a frame of columns only.
\<close>

definition quality_daily_compliance ::
  "library \<Rightarrow> quality_reading frame \<Rightarrow> error + compliance_row list" where
  "quality_daily_compliance lib quality =
     (case in_range_column (records quality) of
        Inl e \<Rightarrow> Inl e
      | Inr flags \<Rightarrow>
          (case quality of
             Columns_Only cs \<Rightarrow> Inl AttributeError
           | Frame cs rs \<Rightarrow>
               Inr (sort_key (\<lambda>row. (c_parameter row, c_date row))
                      (map (\<lambda>(k, g). compliance_agg k g)
                         (groupby (\<lambda>r. (parameter r, dt_date lib (timestamp r))) rs)))))"

subsection \<open>Breach-event segmentation\<close>

record breach_event =
  ev_parameter :: string
  ev_start :: timestamp
  ev_end :: timestamp
  duration_min :: real
  min_value :: float
  max_value :: float
  readings :: int

text \<open>
  The objects that the test \<open>seg["in_range"].iloc[0] is False\<close> compares. An entry read from
  a boolean column with \<open>iloc\<close> is a \<open>numpy.bool_\<close> scalar; \<open>False\<close> is the singleton of
  Python's \<open>bool\<close>; \<open>is\<close> is the identity of objects, and no \<open>numpy.bool_\<close> is that singleton.
\<close>

datatype scalar = PyBool bool | NpBool bool

definition iloc :: "bool list \<Rightarrow> nat \<Rightarrow> scalar" where
  "iloc column i = NpBool (column ! i)"

definition is_False :: "scalar \<Rightarrow> bool" where
  "is_False x \<longleftrightarrow> x = PyBool False"

text \<open>
  \<open>run_id = (g["in_range"] != g["in_range"].shift(1)).cumsum()\<close>: the first entry of the
  shifted column is NaN, which differs from every boolean.
\<close>

definition shift1 :: "bool list \<Rightarrow> bool option list" where
  "shift1 s = (case s of [] \<Rightarrow> [] | _ # _ \<Rightarrow> None # map Some (butlast s))"

definition ne_shift :: "bool list \<Rightarrow> bool list" where
  "ne_shift s = map (\<lambda>(a, b). Some a \<noteq> b) (zip s (shift1 s))"

fun cumsum_from :: "nat \<Rightarrow> bool list \<Rightarrow> nat list" where
  "cumsum_from acc [] = []"
| "cumsum_from acc (b # bs) =
     (let acc' = acc + (if b then 1 else 0) in acc' # cumsum_from acc' bs)"

definition run_id :: "bool list \<Rightarrow> nat list" where
  "run_id s = cumsum_from 0 (ne_shift s)"

definition segments :: "quality_reading list \<Rightarrow> quality_reading list list" where
  "segments g = map (\<lambda>(k, seg). map fst seg) (groupby snd (zip g (run_id (map in_range g))))"

text \<open>Python's \<open>round(x, 2)\<close>: to the nearest hundredth, a tie to the even one.\<close>

definition round_half_even :: "real \<Rightarrow> int" where
  "round_half_even x =
     (let f = \<lfloor>x\<rfloor>; d = x - real_of_int f
      in if d < 1 / 2 then f else if d > 1 / 2 then f + 1 else if even f then f else f + 1)"

definition round2 :: "real \<Rightarrow> real" where
  "round2 x = real_of_int (round_half_even (x * 100)) / 100"

definition event_of :: "string \<Rightarrow> quality_reading list \<Rightarrow> breach_event" where
  "event_of param seg =
     (let start = timestamp (hd seg);
          stop = timestamp (last seg);
          dur_min = real_of_int (stop - start) / 1000000000 / 60
      in \<lparr>ev_parameter = param, ev_start = start, ev_end = stop,
          duration_min = round2 dur_min,
          min_value = nanmin (map val seg),
          max_value = nanmax (map val seg),
          readings = int (length seg)\<rparr>)"

definition event_columns :: "string list" where
  "event_columns =
     [''parameter'', ''start'', ''end'', ''duration_min'', ''min_value'', ''max_value'',
      ''readings'']"

text \<open>
  The function reads no \<open>.dt\<close>: on a frame of columns only it finds no group and returns
  the columns of the events. The column \<open>in_range\<close> raises as in the rollup.
\<close>

definition quality_breach_events :: "quality_reading frame \<Rightarrow> error + breach_event frame" where
  "quality_breach_events quality =
     (let q = sort_key (\<lambda>r. (parameter r, timestamp r)) (records quality)
      in case in_range_column q of
           Inl e \<Rightarrow> Inl e
         | Inr flags \<Rightarrow>
             (let rows = concat (map (\<lambda>(param, g).
                           concat (map (\<lambda>seg.
                             if seg \<noteq> [] \<and> is_False (iloc (map in_range seg) 0)
                             then [event_of param seg] else [])
                             (segments g)))
                           (groupby parameter q))
              in if rows = [] then Inr (Columns_Only event_columns)
                 else Inr (Frame event_columns
                             (sort_key (\<lambda>e. (ev_parameter e, ev_start e)) rows))))"

subsection \<open>Correlation against a named quality parameter\<close>

record joined_row =
  j_date :: int
  j_total_consumption :: real
  humidity :: float

text \<open>
  \<open>Series.corr\<close>: the Pearson coefficient over the rows where both columns are not NaN; NaN
  when no such row is left or when the product of the deviations' norms is zero.
\<close>

definition pearson :: "real list \<Rightarrow> real list \<Rightarrow> float" where
  "pearson xs ys =
     (let mx = mean xs; my = mean ys;
          cov = sum_list (map (\<lambda>(x, y). (x - mx) * (y - my)) (zip xs ys));
          sx = sqrt (sum_list (map (\<lambda>x. (x - mx)\<^sup>2) xs));
          sy = sqrt (sum_list (map (\<lambda>y. (y - my)\<^sup>2) ys))
      in if xs = [] \<or> sx * sy = 0 then None else Some (cov / (sx * sy)))"

definition corr :: "joined_row list \<Rightarrow> float" where
  "corr merged =
     (let valid = List.map_filter
                    (\<lambda>row. case humidity row of None \<Rightarrow> None
                           | Some h \<Rightarrow> Some (j_total_consumption row, h)) merged
      in pearson (map fst valid) (map snd valid))"

text \<open>
  The daily mean of the named parameter, and \<open>pd.merge(_, _, on="date", how="inner")\<close>:
  the rows of the left frame in their order, each with the rows of the right frame of the
  same date.
\<close>

definition daily_humidity :: "library \<Rightarrow> quality_reading list \<Rightarrow> (int \<times> float) list" where
  "daily_humidity lib h =
     map (\<lambda>(d, g). (d, nanmean (map val g))) (groupby (\<lambda>r. dt_date lib (timestamp r)) h)"

definition merge_on_date :: "daily_row list \<Rightarrow> (int \<times> float) list \<Rightarrow> joined_row list" where
  "merge_on_date fd hdaily =
     concat (map (\<lambda>row.
               map (\<lambda>(d, hm). \<lparr>j_date = date row,
                                 j_total_consumption = total_consumption row,
                                 humidity = hm\<rparr>)
                 (filter (\<lambda>(d, hm). d = date row) hdaily)) fd)"

definition joined_columns :: "string list" where
  "joined_columns = [''date'', ''total_consumption'', ''humidity'']"

text \<open>
  \<open>flow_daily(flow)\<close> comes first, with its AttributeError. The result is the pair of the
  joined table and the correlation; for the correlation, \<open>None\<close> is Python's None and
  \<open>Some c\<close> is the float \<open>c\<close>.
\<close>

definition humidity_vs_flow_daily ::
  "library \<Rightarrow> flow_reading frame \<Rightarrow> quality_reading frame \<Rightarrow> string \<Rightarrow>
     error + joined_row frame \<times> float option" where
  "humidity_vs_flow_daily lib flow quality humidity_name =
     (case flow_daily lib flow of
        Inl e \<Rightarrow> Inl e
      | Inr fd \<Rightarrow>
          (let h = filter (\<lambda>r. parameter r = humidity_name) (records quality)
           in if h = [] then Inr (Columns_Only joined_columns, None)
              else
                let merged = merge_on_date fd (daily_humidity lib h)
                in Inr (Frame joined_columns merged,
                        if length merged \<ge> 2 \<and> list_ex (\<lambda>row. humidity row \<noteq> None) merged
                        then Some (corr merged) else None)))"

section \<open>The anomaly detector (alerts.py)\<close>

record anomaly_row =
  an_timestamp :: timestamp
  an_consumption :: real
  roll_med :: float
  threshold :: float
  anomaly :: bool

definition median :: "real list \<Rightarrow> real" where
  "median xs =
     (let s = sort xs; n = length s
      in if odd n then s ! (n div 2) else (s ! (n div 2 - 1) + s ! (n div 2)) / 2)"

text \<open>
  \<open>rolling(window, min_periods).median()\<close>: at each position, the median of the entries that
  are not NaN among the last \<open>window\<close> ones, or NaN when fewer than \<open>min_periods\<close> are left.
\<close>

definition rolling_median :: "nat \<Rightarrow> nat \<Rightarrow> float list \<Rightarrow> float list" where
  "rolling_median window min_periods xs =
     map (\<lambda>i. let w = notna (drop (i + 1 - window) (take (i + 1) xs))
              in if length w \<ge> min_periods then Some (median w) else None)
       [0..<length xs]"

definition abs_dev :: "float \<Rightarrow> float \<Rightarrow> float" where
  "abs_dev c m = (case c of None \<Rightarrow> None | Some x \<Rightarrow> (case m of None \<Rightarrow> None | Some y \<Rightarrow> Some \<bar>x - y\<bar>))"

definition replace0 :: "float \<Rightarrow> float" where
  "replace0 d = (if d = Some 0 then None else d)"

definition add3 :: "float \<Rightarrow> float \<Rightarrow> float" where
  "add3 m d = (case m of None \<Rightarrow> None | Some x \<Rightarrow> (case d of None \<Rightarrow> None | Some y \<Rightarrow> Some (x + 3 * y)))"

definition min_periods :: "int \<Rightarrow> nat" where
  "min_periods window = nat (max 6 (window div 4))"

definition roll_med_column :: "int \<Rightarrow> flow_reading list \<Rightarrow> float list" where
  "roll_med_column window z =
     rolling_median (nat window) (min_periods window) (map (\<lambda>r. Some (consumption r)) z)"

definition mad_column :: "int \<Rightarrow> flow_reading list \<Rightarrow> float list" where
  "mad_column window z =
     rolling_median (nat window) (min_periods window)
       (map (\<lambda>(r, m). abs_dev (Some (consumption r)) m) (zip z (roll_med_column window z)))"

text \<open>
  \<open>rolling\<close> raises ValueError for a negative window and for a window smaller than
  \<open>min_periods\<close>, which is at least 6. The argument \<open>flow\<close> is the list of the rows of a flow
  frame.
\<close>

definition flow_anomalies :: "flow_reading list \<Rightarrow> int \<Rightarrow> error + anomaly_row list" where
  "flow_anomalies flow window =
     (if window < 6 then Inl ValueError
      else
        let z = sort_key timestamp flow;
            med = roll_med_column window z;
            mad = mad_column window z
        in Inr (map (\<lambda>(r, m, d).
                  let th = add3 m (replace0 d)
                  in \<lparr>an_timestamp = timestamp r, an_consumption = consumption r,
                      roll_med = m, threshold = th,
                      anomaly = gt_f (Some (consumption r)) th\<rparr>)
                (zip z (zip med mad))))"

section \<open>Sample inputs\<close>

text \<open>
  An instance of the library functions on the cells of the sample tables, which are ASCII:
  wall-clock times of the first of January 2024, localized by the offset of UTC+05:30,
  which is also the offset of the dates.
\<close>

definition example_clock :: "string \<Rightarrow> timestamp option" where
  "example_clock =
     map_of [(''01/01/2024 10:00'', 1704103200000000000),
             (''01/01/2024 10:05'', 1704103500000000000),
             (''01/01/2024 10:10'', 1704103800000000000),
             (''01/01/2024 10:15'', 1704104100000000000)]"

definition example_library :: library where
  "example_library =
     \<lparr>strip = ascii_strip,
      lower = ascii_lower,
      to_datetime_series = map example_clock,
      to_datetime = example_clock,
      tz_localize = (\<lambda>t. Some (t - 19800000000000)),
      to_numeric = map_of [(''100'', 100), (''105'', 105), (''103'', 103), (''110'', 110),
                           (''7.2'', 7.2), (''9.1'', 9.1)],
      sort_block = sort_key fst,
      param_re = map_of [(''1. pH (pH), Safe Range: (6.5 to 8.5)'', (''pH (pH) '', '' 6.5 to 8.5'')),
                         (''2. TDS (TDS), Safe Range: (unknown)'', (''TDS (TDS) '', '' unknown''))],
      py_float = map_of [(''6.5'', Some 6.5), (''8.5'', Some 8.5)],
      dt_date = (\<lambda>t. (t + 19800000000000) div 86400000000000)\<rparr>"

definition example_flow_table :: raw_table where
  "example_flow_table =
     \<lparr>ncols = 3,
      rows = [[''Date'', ''Time'', ''Totalizer (L)''],
              [''01/01/2024'', ''10:00'', ''100''],
              [''01/01/2024'', ''10:05'', ''105''],
              [''01/01/2024'', ''10:10'', ''103''],
              [''01/01/2024'', ''10:15'', ''110'']]\<rparr>"

definition example_flow :: "flow_reading list" where
  "example_flow =
     [\<lparr>timestamp = 1704083400000000000, totalizer = 100, consumption = 0\<rparr>,
      \<lparr>timestamp = 1704083700000000000, totalizer = 105, consumption = 5\<rparr>,
      \<lparr>timestamp = 1704084000000000000, totalizer = 103, consumption = 0\<rparr>,
      \<lparr>timestamp = 1704084300000000000, totalizer = 110, consumption = 7\<rparr>]"

definition two_column_table :: raw_table where
  "two_column_table = \<lparr>ncols = 2, rows = [[''01/01/2024'', ''10:00'']]\<rparr>"

definition headless_table :: raw_table where
  "headless_table =
     \<lparr>ncols = 3,
      rows = [[''01/01/2024'', ''10:00'', ''100''], [''01/01/2024'', ''10:05'', ''105'']]\<rparr>"

text \<open>
  A quality table whose second data row has the value cell \<open>abc\<close>, and one whose header row
  has two cells that are not empty.
\<close>

definition example_quality_table :: raw_table where
  "example_quality_table =
     \<lparr>ncols = 3,
      rows = [[''1. pH (pH), Safe Range: (6.5 to 8.5)'', [], []],
              [''Date'', ''Time'', ''Value''],
              [''01/01/2024'', ''10:00'', ''7.2''],
              [''01/01/2024'', ''10:05'', ''abc'']]\<rparr>"

definition two_cell_header_table :: raw_table where
  "two_cell_header_table =
     \<lparr>ncols = 3,
      rows = [[''1. pH (pH), Safe Range: (6.5 to 8.5)'', [], []],
              [''Date'', ''Time'', []],
              [''01/01/2024'', ''10:00'', ''7.2'']]\<rparr>"

text \<open>A quality table whose only safe range does not parse.\<close>

definition unknown_range_table :: raw_table where
  "unknown_range_table =
     \<lparr>ncols = 3,
      rows = [[''2. TDS (TDS), Safe Range: (unknown)'', [], []],
              [''Date'', ''Time'', ''Value''],
              [''01/01/2024'', ''10:00'', ''7.2'']]\<rparr>"

text \<open>
  Three readings of one day with the safe range 20 to 40, a fourth reading of that day
  whose value is NaN, and a single reading above its safe range.
\<close>

definition example_quality :: "quality_reading list" where
  "example_quality =
     [\<lparr>timestamp = 1704083400000000000, parameter = ''TDS'', val = Some 10,
       safe_min = Float (Some 20), safe_max = Float (Some 40)\<rparr>,
      \<lparr>timestamp = 1704083700000000000, parameter = ''TDS'', val = Some 25,
       safe_min = Float (Some 20), safe_max = Float (Some 40)\<rparr>,
      \<lparr>timestamp = 1704084000000000000, parameter = ''TDS'', val = Some 30,
       safe_min = Float (Some 20), safe_max = Float (Some 40)\<rparr>]"

definition nan_reading :: quality_reading where
  "nan_reading =
     \<lparr>timestamp = 1704084300000000000, parameter = ''TDS'', val = None,
      safe_min = Float (Some 20), safe_max = Float (Some 40)\<rparr>"

definition single_breach :: "quality_reading list" where
  "single_breach =
     [\<lparr>timestamp = 1704083400000000000, parameter = ''pH (pH)'', val = Some (19 / 2),
       safe_min = Float (Some (13 / 2)), safe_max = Float (Some (17 / 2))\<rparr>]"

text \<open>
  Flow readings and humidity readings of the first three days of January 2024, with the
  daily totals 10, 20, 30 and the daily means 40, 50, 60; and their first day alone.
\<close>

definition three_day_flow :: "flow_reading list" where
  "three_day_flow =
     [\<lparr>timestamp = 1704083400000000000, totalizer = 100, consumption = 4\<rparr>,
      \<lparr>timestamp = 1704083700000000000, totalizer = 106, consumption = 6\<rparr>,
      \<lparr>timestamp = 1704169800000000000, totalizer = 126, consumption = 20\<rparr>,
      \<lparr>timestamp = 1704256200000000000, totalizer = 156, consumption = 30\<rparr>]"

definition three_day_humidity :: "quality_reading list" where
  "three_day_humidity =
     [\<lparr>timestamp = 1704083400000000000, parameter = ''HUMIDITY (HUMIDITY)'', val = Some 35,
       safe_min = Float (Some 30), safe_max = Float (Some 70)\<rparr>,
      \<lparr>timestamp = 1704083700000000000, parameter = ''HUMIDITY (HUMIDITY)'', val = Some 45,
       safe_min = Float (Some 30), safe_max = Float (Some 70)\<rparr>,
      \<lparr>timestamp = 1704169800000000000, parameter = ''HUMIDITY (HUMIDITY)'', val = Some 50,
       safe_min = Float (Some 30), safe_max = Float (Some 70)\<rparr>,
      \<lparr>timestamp = 1704256200000000000, parameter = ''HUMIDITY (HUMIDITY)'', val = Some 60,
       safe_min = Float (Some 30), safe_max = Float (Some 70)\<rparr>]"

definition one_day_flow :: "flow_reading list" where
  "one_day_flow = take 2 three_day_flow"

definition one_day_humidity :: "quality_reading list" where
  "one_day_humidity = take 2 three_day_humidity"

text \<open>Five readings of the same consumption, and an outlier after them.\<close>

definition outlier_flow :: "flow_reading list" where
  "outlier_flow =
     map (\<lambda>i. \<lparr>timestamp = 1704083400000000000 + 300000000000 * i, totalizer = 100 + 2 * real_of_int i,
                consumption = 2\<rparr>) [0, 1, 2, 3, 4] @
     [\<lparr>timestamp = 1704084900000000000, totalizer = 1110, consumption = 1000\<rparr>]"

section \<open>Vocabulary of the statements\<close>

text \<open>The readings of a parameter on a date, and the flow readings of a date.\<close>

definition readings_on ::
  "library \<Rightarrow> string \<Rightarrow> int \<Rightarrow> quality_reading list \<Rightarrow> quality_reading list" where
  "readings_on lib p d quality =
     filter (\<lambda>q. parameter q = p \<and> dt_date lib (timestamp q) = d) quality"

definition flow_on :: "library \<Rightarrow> int \<Rightarrow> flow_reading list \<Rightarrow> flow_reading list" where
  "flow_on lib d flow = filter (\<lambda>f. dt_date lib (timestamp f) = d) flow"

text \<open>
  The inner join on the date, said directly: the dates that have flow readings and readings
  of the named parameter, in ascending order, each with the total consumption of the date
  and the mean of the parameter's values of the date.
\<close>

definition joined_table ::
  "library \<Rightarrow> string \<Rightarrow> flow_reading list \<Rightarrow> quality_reading list \<Rightarrow> joined_row list" where
  "joined_table lib name flow quality =
     map (\<lambda>d. \<lparr>j_date = d,
                j_total_consumption = sum_list (map consumption (flow_on lib d flow)),
                humidity = nanmean (map val (readings_on lib name d quality))\<rparr>)
       (filter (\<lambda>d. readings_on lib name d quality \<noteq> [])
          (sort (remdups (map (\<lambda>f. dt_date lib (timestamp f)) flow))))"

text \<open>The columns of bounds of a frame are float columns: no bound is \<open>None\<close>.\<close>

definition float_bounds :: "quality_reading list \<Rightarrow> bool" where
  "float_bounds q \<longleftrightarrow> list_all (\<lambda>r. safe_min r \<noteq> PyNone \<and> safe_max r \<noteq> PyNone) q"

section \<open>Properties of the flow parser\<close>

subsection \<open>Deduplication and sorting\<close>

lemma keys_drop_duplicates_from:
  "distinct (map key (drop_duplicates_from key seen xs)) \<and>
   key ` set (drop_duplicates_from key seen xs) \<inter> set seen = {}"
  by (induction key seen xs rule: drop_duplicates_from.induct) auto

lemma distinct_drop_duplicates: "distinct (map key (drop_duplicates key xs))"
  by (simp add: drop_duplicates_def keys_drop_duplicates_from)

lemma distinct_map_insort_key:
  "distinct (map f (insort_key f x xs)) \<longleftrightarrow> f x \<notin> f ` set xs \<and> distinct (map f xs)"
  by (induction xs) (auto simp: set_insort_key)

lemma distinct_map_sort_key: "distinct (map f (sort_key f xs)) \<longleftrightarrow> distinct (map f xs)"
  by (induction xs) (auto simp: distinct_map_insort_key)

subsection \<open>The consumption column\<close>

lemma length_diff: "length (diff xs) = length xs"
  by (cases xs) (auto simp: diff_def)

lemma diff_nth:
  assumes "i < length xs"
  shows "diff xs ! i = (if i = 0 then None else Some (xs ! i - xs ! (i - 1)))"
proof (cases xs)
  case Nil
  with assms show ?thesis by simp
next
  case (Cons x rest)
  show ?thesis
  proof (cases i)
    case 0
    then show ?thesis by (simp add: diff_def Cons)
  next
    case (Suc j)
    with assms Cons have "j < length rest" by simp
    then show ?thesis using Suc Cons by (simp add: diff_def)
  qed
qed

lemma length_with_consumption: "length (with_consumption df) = length df"
  by (simp add: with_consumption_def length_diff)

lemma with_consumption_nth:
  assumes "i < length df"
  shows "with_consumption df ! i =
    \<lparr>timestamp = fst (df ! i), totalizer = snd (df ! i),
     consumption = (if i = 0 then 0 else max 0 (snd (df ! i) - snd (df ! (i - 1))))\<rparr>"
  using assms
  by (auto simp: with_consumption_def length_diff diff_nth fillna0_def clamp_negative_def
      split: prod.splits)

lemma map_timestamp_with_consumption: "map timestamp (with_consumption df) = map fst df"
  by (rule nth_equalityI) (simp_all add: length_with_consumption with_consumption_nth)

text \<open>
  The rows of every frame that the flow parser returns are the consumption column added
  to a list of rows with sorted and distinct timestamps.
\<close>

lemma load_flow_csv_cases:
  assumes "load_flow_csv lib raw = Inr f"
  shows "\<exists>xs. records f = with_consumption xs \<and> sorted (map fst xs) \<and> distinct (map fst xs)"
proof (cases "records f = []")
  case True
  then have "records f = with_consumption []" by (simp add: with_consumption_def diff_def)
  then show ?thesis by fastforce
next
  case False
  with assms show ?thesis
    by (auto simp: load_flow_csv_def Let_def distinct_map_sort_key distinct_drop_duplicates
        split: if_splits)
qed

text \<open>The parser returns a frame for every table of at least three columns.\<close>

lemma load_flow_csv_returns: "3 \<le> ncols raw \<Longrightarrow> \<exists>f. load_flow_csv lib raw = Inr f"
  by (simp add: load_flow_csv_def Let_def)

lemma load_example_flow_table:
  "load_flow_csv example_library example_flow_table =
     Inr (Frame [''timestamp'', ''totalizer'', ''consumption''] example_flow)"
  by code_simp

text \<open>
  Claim C2. In every series that \<open>load_flow_csv\<close> returns, the timestamps are strictly
  increasing and unique, the consumption of every reading is at least 0, and the
  consumption of the first reading is 0.
\<close>

theorem load_flow_csv_series_invariant:
  assumes "load_flow_csv lib raw = Inr f"
  shows "sorted_wrt (<) (map timestamp (records f)) \<and> distinct (map timestamp (records f)) \<and>
         (\<forall>r \<in> set (records f). 0 \<le> consumption r) \<and>
         (records f \<noteq> [] \<longrightarrow> consumption (hd (records f)) = 0)"
proof -
  obtain xs where df: "records f = with_consumption xs"
    and s: "sorted (map fst xs)" and d: "distinct (map fst xs)"
    using load_flow_csv_cases [OF assms] by blast
  have 1: "sorted_wrt (<) (map timestamp (records f))" "distinct (map timestamp (records f))"
    using s d by (simp_all add: df map_timestamp_with_consumption strict_sorted_iff)
  have 2: "0 \<le> consumption r" if "r \<in> set (records f)" for r
  proof -
    from that obtain i where "i < length xs" "r = with_consumption xs ! i"
      by (auto simp: df in_set_conv_nth length_with_consumption)
    then show ?thesis by (simp add: with_consumption_nth)
  qed
  have 3: "consumption (hd (records f)) = 0" if "records f \<noteq> []"
  proof -
    from that have "0 < length xs" by (auto simp: df with_consumption_def)
    then show ?thesis using that by (simp add: hd_conv_nth df with_consumption_nth)
  qed
  show ?thesis using 1 2 3 by blast
qed

theorem load_flow_csv_series_invariant_witness:
  "read_csv_frame example_flow_table \<and>
   load_flow_csv example_library example_flow_table =
     Inr (Frame [''timestamp'', ''totalizer'', ''consumption''] example_flow) \<and>
   sorted_wrt (<) (map timestamp example_flow) \<and>
   distinct (map timestamp example_flow) \<and>
   list_all (\<lambda>r. 0 \<le> consumption r) example_flow \<and>
   consumption (hd example_flow) = 0"
proof -
  have "example_flow \<noteq> []" by (simp add: example_flow_def)
  moreover have "read_csv_frame example_flow_table" by code_simp
  ultimately show ?thesis
    using load_flow_csv_series_invariant [OF load_example_flow_table] load_example_flow_table
    by (simp add: list_all_iff)
qed

text \<open>
  Claim C3. In every series that \<open>load_flow_csv\<close> returns, the consumption at each position
  \<open>i \<ge> 1\<close> is the difference of the totalizer at \<open>i\<close> and the totalizer of the reading
  before it, or 0 when that difference is negative; the base of a difference is the
  totalizer itself, whatever the reading before it was clamped to. The table with the
  totalizers 100, 105, 103, 110 gives the consumptions 0, 5, 0, 7.
\<close>

theorem load_flow_csv_consumption_clamped_diff:
  "(load_flow_csv lib raw = Inr f \<and> 1 \<le> i \<and> i < length (records f) \<longrightarrow>
      consumption (records f ! i) =
        max 0 (totalizer (records f ! i) - totalizer (records f ! (i - 1)))) \<and>
   (\<exists>ex. load_flow_csv example_library example_flow_table = Inr ex \<and>
      map totalizer (records ex) = [100, 105, 103, 110] \<and>
      map consumption (records ex) = [0, 5, 0, 7])"
proof
  show "load_flow_csv lib raw = Inr f \<and> 1 \<le> i \<and> i < length (records f) \<longrightarrow>
      consumption (records f ! i) =
        max 0 (totalizer (records f ! i) - totalizer (records f ! (i - 1)))"
  proof
    assume a: "load_flow_csv lib raw = Inr f \<and> 1 \<le> i \<and> i < length (records f)"
    then obtain xs where df: "records f = with_consumption xs"
      using load_flow_csv_cases by blast
    with a show "consumption (records f ! i) =
        max 0 (totalizer (records f ! i) - totalizer (records f ! (i - 1)))"
      by (auto simp: length_with_consumption with_consumption_nth)
  qed
  have "map totalizer example_flow = [100, 105, 103, 110]"
    and "map consumption example_flow = [0, 5, 0, 7]"
    by (simp_all add: example_flow_def)
  with load_example_flow_table
  show "\<exists>ex. load_flow_csv example_library example_flow_table = Inr ex \<and>
      map totalizer (records ex) = [100, 105, 103, 110] \<and>
      map consumption (records ex) = [0, 5, 0, 7]"
    by (intro exI [of _ "Frame [''timestamp'', ''totalizer'', ''consumption''] example_flow"]) simp
qed

theorem load_flow_csv_consumption_clamped_diff_witness:
  "load_flow_csv example_library example_flow_table =
     Inr (Frame [''timestamp'', ''totalizer'', ''consumption''] example_flow) \<and>
   (1::nat) \<le> 2 \<and> 2 < length example_flow \<and>
   totalizer (example_flow ! 2) - totalizer (example_flow ! 1) = - 2 \<and>
   consumption (example_flow ! 2) = 0 \<and>
   consumption (example_flow ! 3) = totalizer (example_flow ! 3) - totalizer (example_flow ! 2)"
proof -
  let ?f = "Frame [''timestamp'', ''totalizer'', ''consumption''] example_flow"
  have l: "length example_flow = 4"
    by (simp add: example_flow_def)
  have t': "totalizer (example_flow ! 1) = 105" "totalizer (example_flow ! 2) = 103"
    "totalizer (example_flow ! 3) = 110"
    by (simp_all add: example_flow_def)
  from load_flow_csv_consumption_clamped_diff
         [of example_library example_flow_table ?f 2]
       load_flow_csv_consumption_clamped_diff
         [of example_library example_flow_table ?f 3]
       load_example_flow_table l t'
  show ?thesis by simp
qed

section \<open>Properties of the quality parser\<close>

subsection \<open>One turn of the loop\<close>

lemma scan_row_table_header:
  assumes "truthy (current_param st)"
      and "non_empty_cells lib hdr = c0 # c1 # c2 # cs"
      and "param_re lib c0 = None"
      and "lower lib c0 = ''date''" and "lower lib c1 = ''time''"
  shows "scan_row lib st hdr = st\<lparr>in_table := True\<rparr>"
  using assms by (simp add: scan_row_def Let_def)

lemma scan_row_data_row:
  assumes "current_param st = Some p" and "p \<noteq> []" and "in_table st"
      and "non_empty_cells lib r = d # t # v # rest"
      and "param_re lib d = None"
      and "\<not> (lower lib d = ''date'' \<and> lower lib t = ''time'')"
      and "to_datetime lib (d @ '' '' @ t) = Some ts"
  shows "scan_row lib st r =
           st\<lparr>out := out st @ [(tz_localize lib ts, p, to_numeric lib (remove_commas v),
                                  cur_safe_min st, cur_safe_max st)]\<rparr>"
  using assms by (auto simp: scan_row_def Let_def)

lemma scan_row_bad_timestamp:
  assumes "non_empty_cells lib r = d # t # v # rest"
      and "param_re lib d = None"
      and "\<not> (truthy (current_param st) \<and> lower lib d = ''date'' \<and> lower lib t = ''time'')"
      and "to_datetime lib (d @ '' '' @ t) = None"
  shows "scan_row lib st r = st"
  using assms by (auto simp: scan_row_def Let_def split: option.splits)

text \<open>A row of fewer than three cells that is not a parameter header changes nothing.\<close>

lemma scan_row_short:
  assumes "length (non_empty_cells lib r) < 3"
      and "non_empty_cells lib r \<noteq> [] \<longrightarrow> param_re lib (non_empty_cells lib r ! 0) = None"
  shows "scan_row lib st r = st"
  using assms by (auto simp: scan_row_def Let_def split: option.splits)

lemma scan_row_no_param:
  assumes "current_param st = None"
      and "non_empty_cells lib r \<noteq> [] \<longrightarrow> param_re lib (non_empty_cells lib r ! 0) = None"
  shows "scan_row lib st r = st"
  using assms by (simp add: scan_row_def Let_def truthy_def)

subsection \<open>The whole loop\<close>

text \<open>The loop only appends to \<open>out\<close>.\<close>

lemma scan_row_out: "\<exists>ys. out (scan_row lib st r) = out st @ ys"
  by (auto simp: scan_row_def Let_def split: option.splits prod.splits)

lemma foldl_scan_row_out: "\<exists>ys. out (foldl (scan_row lib) st rs) = out st @ ys"
proof (induction rs arbitrary: st)
  case Nil
  then show ?case by simp
next
  case (Cons r rs)
  obtain ys where 1: "out (scan_row lib st r) = out st @ ys"
    using scan_row_out by blast
  obtain zs where 2:
    "out (foldl (scan_row lib) (scan_row lib st r) rs) = out (scan_row lib st r) @ zs"
    using Cons.IH by blast
  show ?case by (simp add: 1 2)
qed

lemma foldl_scan_row_no_param:
  assumes "current_param st = None"
      and "\<forall>r \<in> set rs. non_empty_cells lib r \<noteq> [] \<longrightarrow>
             param_re lib (non_empty_cells lib r ! 0) = None"
  shows "foldl (scan_row lib) st rs = st"
  using assms by (induction rs) (simp_all add: scan_row_no_param)

lemma set_dropna_timestamp:
  "set (dropna_timestamp xs) =
     {\<lparr>timestamp = t, parameter = p, val = v, safe_min = lo, safe_max = hi\<rparr> | t p v lo hi.
        (Some t, p, v, lo, hi) \<in> set xs}"
  by (force simp: dropna_timestamp_def List.map_filter_def split: option.splits)

text \<open>An entry of \<open>out\<close> with a timestamp is a row of the frame, with its value.\<close>

lemma out_row_in_frame:
  assumes "(Some t, p, v, lo, hi) \<in> set (out (foldl (scan_row lib) initial_state (rows raw)))"
  shows "\<exists>lo' hi'. \<lparr>timestamp = t, parameter = p, val = v, safe_min = lo', safe_max = hi'\<rparr>
           \<in> set (records (load_quality_csv lib raw))"
proof -
  let ?rs = "out (foldl (scan_row lib) initial_state (rows raw))"
  from assms have ne: "?rs \<noteq> []" by auto
  from assms have "\<exists>lo' hi'. (Some t, p, v, lo', hi') \<in> set (data_frame ?rs)"
    by (force simp: data_frame_def Let_def)
  then have "\<exists>lo' hi'. \<lparr>timestamp = t, parameter = p, val = v, safe_min = lo', safe_max = hi'\<rparr>
           \<in> set (dropna_timestamp (data_frame ?rs))"
    unfolding set_dropna_timestamp by blast
  then show ?thesis using ne by (simp add: load_quality_csv_def Let_def)
qed

lemma header_idxs_no_header:
  assumes "\<forall>r \<in> set (rows raw). \<not> is_header lib r"
  shows "header_idxs lib raw = [length (rows raw)]"
  using assms by (simp add: header_idxs_def filter_empty_conv)

text \<open>The state of the loop on the sample table, after one and three rows.\<close>

lemma example_state_1:
  "foldl (scan_row example_library) initial_state (take 1 (rows example_quality_table)) =
     \<lparr>out = [], current_param = Some ''pH (pH)'', cur_safe_min = Some (Some (13 / 2)),
      cur_safe_max = Some (Some (17 / 2)), in_table = False\<rparr>"
  by code_simp

lemma example_state_3:
  "foldl (scan_row example_library) initial_state (take 3 (rows example_quality_table)) =
     \<lparr>out = [(Some 1704083400000000000, ''pH (pH)'', Some (36 / 5),
              Some (Some (13 / 2)), Some (Some (17 / 2)))],
      current_param = Some ''pH (pH)'', cur_safe_min = Some (Some (13 / 2)),
      cur_safe_max = Some (Some (17 / 2)), in_table = True\<rparr>"
  by code_simp

text \<open>
  Claim C9, as the code has it. A quality table without a row that matches \<open>PARAM_RE\<close>
  gives the frame of the five quality columns and no row. A flow table without a header
  row gives the frame of the three flow columns and no row when it has at least three
  columns; on every flow table of fewer than three columns the parser raises IndexError,
  at \<open>raw.iloc[:, 2]\<close>.
\<close>

theorem parsers_empty_without_headers:
  "(ncols raw < 3 \<longrightarrow> load_flow_csv lib raw = Inl IndexError) \<and>
   (3 \<le> ncols raw \<and> (\<forall>r \<in> set (rows raw). \<not> is_header lib r) \<longrightarrow>
      load_flow_csv lib raw = Inr (Columns_Only [''timestamp'', ''totalizer'', ''consumption''])) \<and>
   ((\<forall>r \<in> set (rows raw).
       non_empty_cells lib r \<noteq> [] \<longrightarrow> param_re lib (non_empty_cells lib r ! 0) = None) \<longrightarrow>
      load_quality_csv lib raw =
        Columns_Only [''timestamp'', ''parameter'', ''value'', ''safe_min'', ''safe_max''])"
proof -
  have "load_flow_csv lib raw = Inl IndexError" if "ncols raw < 3"
    using that by (simp add: load_flow_csv_def)
  moreover have "load_flow_csv lib raw =
      Inr (Columns_Only [''timestamp'', ''totalizer'', ''consumption''])"
    if "3 \<le> ncols raw" and "\<forall>r \<in> set (rows raw). \<not> is_header lib r"
    using that by (simp add: load_flow_csv_def header_idxs_no_header flow_columns_def)
  moreover have "load_quality_csv lib raw =
      Columns_Only [''timestamp'', ''parameter'', ''value'', ''safe_min'', ''safe_max'']"
    if "\<forall>r \<in> set (rows raw).
          non_empty_cells lib r \<noteq> [] \<longrightarrow> param_re lib (non_empty_cells lib r ! 0) = None"
  proof -
    have "foldl (scan_row lib) initial_state (rows raw) = initial_state"
      using that by (intro foldl_scan_row_no_param) (simp_all add: initial_state_def)
    then show ?thesis
      by (simp add: load_quality_csv_def initial_state_def quality_columns_def)
  qed
  ultimately show ?thesis by blast
qed

theorem parsers_empty_without_headers_witness:
  "read_csv_frame headless_table \<and> 3 \<le> ncols headless_table \<and>
   list_all (\<lambda>r. \<not> is_header example_library r) (rows headless_table) \<and>
   load_flow_csv example_library headless_table =
     Inr (Columns_Only [''timestamp'', ''totalizer'', ''consumption'']) \<and>
   load_quality_csv example_library headless_table =
     Columns_Only [''timestamp'', ''parameter'', ''value'', ''safe_min'', ''safe_max''] \<and>
   ncols two_column_table < 3 \<and>
   load_flow_csv example_library two_column_table = Inl IndexError"
proof -
  have a: "3 \<le> ncols headless_table" "read_csv_frame headless_table"
    "ncols two_column_table < 3"
    by code_simp+
  have b: "list_all (\<lambda>r. \<not> is_header example_library r) (rows headless_table)" by code_simp
  have c: "list_all (\<lambda>r. non_empty_cells example_library r \<noteq> [] \<longrightarrow>
                         param_re example_library (non_empty_cells example_library r ! 0) = None)
             (rows headless_table)" by code_simp
  from parsers_empty_without_headers [of headless_table example_library]
       parsers_empty_without_headers [of two_column_table example_library] a b c
  show ?thesis by (simp add: list_all_iff)
qed

text \<open>
  A flow table of two columns, as \<open>read_csv\<close> gives it, without a header row: the parser
  raises.
\<close>

theorem flow_parser_two_columns_raises:
  "read_csv_frame two_column_table \<and>
   list_all (\<lambda>r. \<not> is_header example_library r) (rows two_column_table) \<and>
   load_flow_csv example_library two_column_table = Inl IndexError"
  by code_simp

text \<open>
  Claim C6, as the code has it. While a parameter is active and the table is open, a row
  that is neither a parameter header nor a table header is dropped when it has fewer than
  three cells that are not empty (so when its value cell is empty, which is also what
  \<open>read_csv\<close> makes of a marker such as \<open>n/a\<close>) and when its date and time do not parse.
  Otherwise it is appended with the value that \<open>pd.to_numeric\<close> gave, NaN when the value
  cell does not parse as a number, and it is in the returned series with that value unless
  its local time is ambiguous (NaT): a value that does not parse drops no row.
\<close>

theorem quality_parser_drops_rows_by_timestamp_only:
  assumes "rows raw = pre @ r # post"
      and "st = foldl (scan_row lib) initial_state pre"
      and "current_param st = Some p" and "p \<noteq> []" and "in_table st"
      and "cells = non_empty_cells lib r"
      and "cells \<noteq> [] \<longrightarrow> param_re lib (cells ! 0) = None"
      and "\<not> (3 \<le> length cells \<and> lower lib (cells ! 0) = ''date'' \<and> lower lib (cells ! 1) = ''time'')"
  shows "(length cells < 3 \<longrightarrow> scan_row lib st r = st) \<and>
         (3 \<le> length cells \<and> to_datetime lib (cells ! 0 @ '' '' @ cells ! 1) = None \<longrightarrow>
            scan_row lib st r = st) \<and>
         (\<forall>ts. 3 \<le> length cells \<and> to_datetime lib (cells ! 0 @ '' '' @ cells ! 1) = Some ts \<longrightarrow>
            out (scan_row lib st r) =
              out st @ [(tz_localize lib ts, p, to_numeric lib (remove_commas (cells ! 2)),
                         cur_safe_min st, cur_safe_max st)]) \<and>
         (\<forall>ts t'. 3 \<le> length cells \<and> to_datetime lib (cells ! 0 @ '' '' @ cells ! 1) = Some ts \<and>
            tz_localize lib ts = Some t' \<longrightarrow>
            (\<exists>lo hi. \<lparr>timestamp = t', parameter = p,
                       val = to_numeric lib (remove_commas (cells ! 2)),
                       safe_min = lo, safe_max = hi\<rparr>
                        \<in> set (records (load_quality_csv lib raw))))"
proof -
  have short: "scan_row lib st r = st" if "length cells < 3"
    using that assms(6,7) by (intro scan_row_short) simp_all
  have split: "\<exists>d t v rest. cells = d # t # v # rest" if "3 \<le> length cells"
    using that by (metis Suc_le_length_iff numeral_3_eq_3)
  have bad: "scan_row lib st r = st"
    if l: "3 \<le> length cells" and n: "to_datetime lib (cells ! 0 @ '' '' @ cells ! 1) = None"
  proof -
    from split [OF l] obtain d t v rest where c: "cells = d # t # v # rest" by blast
    have nc: "non_empty_cells lib r = d # t # v # rest" using c assms(6) by simp
    have e: "cells ! 0 = d" "cells ! 1 = t" by (simp_all add: c)
    show ?thesis
    proof (rule scan_row_bad_timestamp [OF nc])
      show "param_re lib d = None" using assms(7) e(1) c by simp
      show "\<not> (truthy (current_param st) \<and> lower lib d = ''date'' \<and> lower lib t = ''time'')"
        using assms(8) l e by simp
      show "to_datetime lib (d @ '' '' @ t) = None" using n e by simp
    qed
  qed
  have good: "scan_row lib st r =
       st\<lparr>out := out st @ [(tz_localize lib ts, p, to_numeric lib (remove_commas (cells ! 2)),
                              cur_safe_min st, cur_safe_max st)]\<rparr>"
    if l: "3 \<le> length cells"
      and n: "to_datetime lib (cells ! 0 @ '' '' @ cells ! 1) = Some ts" for ts
  proof -
    from split [OF l] obtain d t v rest where c: "cells = d # t # v # rest" by blast
    have nc: "non_empty_cells lib r = d # t # v # rest" using c assms(6) by simp
    have e: "cells ! 0 = d" "cells ! 1 = t" "cells ! 2 = v" by (simp_all add: c)
    have "scan_row lib st r =
       st\<lparr>out := out st @ [(tz_localize lib ts, p, to_numeric lib (remove_commas v),
                              cur_safe_min st, cur_safe_max st)]\<rparr>"
    proof (rule scan_row_data_row [OF assms(3,4,5) nc])
      show "param_re lib d = None" using assms(7) e(1) c by simp
      show "\<not> (lower lib d = ''date'' \<and> lower lib t = ''time'')"
        using assms(8) l e by simp
      show "to_datetime lib (d @ '' '' @ t) = Some ts" using n e by simp
    qed
    then show ?thesis by (simp only: e)
  qed
  have member: "\<exists>lo hi. \<lparr>timestamp = t', parameter = p,
                       val = to_numeric lib (remove_commas (cells ! 2)),
                       safe_min = lo, safe_max = hi\<rparr>
                        \<in> set (records (load_quality_csv lib raw))"
    if "3 \<le> length cells" "to_datetime lib (cells ! 0 @ '' '' @ cells ! 1) = Some ts"
       "tz_localize lib ts = Some t'" for ts t'
  proof -
    let ?x = "(Some t', p, to_numeric lib (remove_commas (cells ! 2)),
               cur_safe_min st, cur_safe_max st)"
    have 1: "?x \<in> set (out (scan_row lib st r))"
      using good [OF that(1,2)] that(3) by simp
    obtain ys where
      "out (foldl (scan_row lib) (scan_row lib st r) post) = out (scan_row lib st r) @ ys"
      using foldl_scan_row_out by blast
    with 1 have "?x \<in> set (out (foldl (scan_row lib) initial_state (rows raw)))"
      by (simp add: assms(1,2))
    then show ?thesis by (rule out_row_in_frame)
  qed
  from short bad good member show ?thesis by (intro conjI allI impI) auto
qed

lemma example_quality_frame:
  "load_quality_csv example_library example_quality_table =
     Frame [''timestamp'', ''parameter'', ''value'', ''safe_min'', ''safe_max'']
       [\<lparr>timestamp = 1704083400000000000, parameter = ''pH (pH)'', val = Some (36 / 5),
         safe_min = Float (Some (13 / 2)), safe_max = Float (Some (17 / 2))\<rparr>,
        \<lparr>timestamp = 1704083700000000000, parameter = ''pH (pH)'', val = None,
         safe_min = Float (Some (13 / 2)), safe_max = Float (Some (17 / 2))\<rparr>]"
  by code_simp

theorem quality_parser_drops_rows_by_timestamp_only_witness:
  "read_csv_frame example_quality_table \<and>
   to_numeric example_library (remove_commas ''abc'') = None \<and>
   (\<exists>lo hi. \<lparr>timestamp = 1704083700000000000, parameter = ''pH (pH)'', val = None,
              safe_min = lo, safe_max = hi\<rparr>
               \<in> set (records (load_quality_csv example_library example_quality_table)))"
proof -
  let ?pre = "take 3 (rows example_quality_table)"
  let ?r = "[''01/01/2024'', ''10:05'', ''abc'']"
  let ?st = "foldl (scan_row example_library) initial_state ?pre"
  let ?cells = "[''01/01/2024'', ''10:05'', ''abc'']"
  have 0: "read_csv_frame example_quality_table" by code_simp
  have 1: "rows example_quality_table = ?pre @ ?r # []" by code_simp
  have 2: "current_param ?st = Some ''pH (pH)''" "''pH (pH)'' \<noteq> []" "in_table ?st"
    unfolding example_state_3 by simp_all
  have 3: "?cells = non_empty_cells example_library ?r" by code_simp
  have 4: "?cells \<noteq> [] \<longrightarrow> param_re example_library (?cells ! 0) = None" by code_simp
  have 5: "\<not> (3 \<le> length ?cells \<and> lower example_library (?cells ! 0) = ''date'' \<and>
               lower example_library (?cells ! 1) = ''time'')" by code_simp
  have 6: "3 \<le> length ?cells \<and>
           to_datetime example_library (?cells ! 0 @ '' '' @ ?cells ! 1) = Some 1704103500000000000 \<and>
           tz_localize example_library 1704103500000000000 = Some 1704083700000000000"
    by code_simp
  have 7: "to_numeric example_library (remove_commas (?cells ! 2)) = None"
    "to_numeric example_library (remove_commas ''abc'') = None" by code_simp+
  note t = quality_parser_drops_rows_by_timestamp_only [OF 1 refl 2 3 4 5]
  from t [THEN conjunct2, THEN conjunct2, THEN conjunct2, rule_format, OF 6]
  show ?thesis unfolding 7 using 0 7(2) by simp
qed

text \<open>
  The values of the series of the sample table, as \<open>read_csv\<close> can give it: the row with
  the value cell \<open>abc\<close> is returned, and its value is NaN.
\<close>

theorem quality_parser_keeps_unparseable_value:
  "read_csv_frame example_quality_table \<and>
   map val (records (load_quality_csv example_library example_quality_table)) =
     [Some (36 / 5), None]"
  by code_simp

text \<open>
  Claim C7, as the code has it. While a parameter is active, a row of at least three cells
  that are not empty, the first two of them \<open>Date\<close> and \<open>Time\<close> in any case, sets
  \<open>in_table\<close> and adds no reading, and a data row after it is read as a reading of the
  active parameter. A row of exactly two cells that are not empty is not a table header
  (\<open>len(cells) >= 3\<close>): in every state it changes nothing, so that it leaves \<open>in_table\<close> as
  it was and adds no reading. (The first cell of such rows is not a parameter header: no
  string that \<open>lower\<close> maps to \<open>date\<close> matches \<open>PARAM_RE\<close>, which asks for a digit.)
\<close>

theorem three_cell_table_header_opens_table:
  "(current_param st = Some p \<and> p \<noteq> [] \<and>
    non_empty_cells lib hdr = c0 # c1 # c2 # cs \<and> param_re lib c0 = None \<and>
    lower lib c0 = ''date'' \<and> lower lib c1 = ''time'' \<longrightarrow>
      scan_row lib st hdr = st\<lparr>in_table := True\<rparr> \<and>
      (\<forall>r d t v rest ts.
         non_empty_cells lib r = d # t # v # rest \<and> param_re lib d = None \<and>
         \<not> (lower lib d = ''date'' \<and> lower lib t = ''time'') \<and>
         to_datetime lib (d @ '' '' @ t) = Some ts \<longrightarrow>
         out (scan_row lib (scan_row lib st hdr) r) =
           out st @ [(tz_localize lib ts, p, to_numeric lib (remove_commas v),
                      cur_safe_min st, cur_safe_max st)])) \<and>
   (non_empty_cells lib hdr = [c0, c1] \<and> param_re lib c0 = None \<longrightarrow>
      scan_row lib st hdr = st)"
proof (intro conjI impI)
  assume a: "current_param st = Some p \<and> p \<noteq> [] \<and>
    non_empty_cells lib hdr = c0 # c1 # c2 # cs \<and> param_re lib c0 = None \<and>
    lower lib c0 = ''date'' \<and> lower lib c1 = ''time''"
  then show h: "scan_row lib st hdr = st\<lparr>in_table := True\<rparr>"
    by (intro scan_row_table_header [of st lib hdr c0 c1 c2 cs]) (auto simp: truthy_def)
  have "out (scan_row lib (st\<lparr>in_table := True\<rparr>) r) =
          out st @ [(tz_localize lib ts, p, to_numeric lib (remove_commas v),
                     cur_safe_min st, cur_safe_max st)]"
    if "non_empty_cells lib r = d # t # v # rest" "param_re lib d = None"
       "\<not> (lower lib d = ''date'' \<and> lower lib t = ''time'')"
       "to_datetime lib (d @ '' '' @ t) = Some ts"
    for r d t v rest ts
    using scan_row_data_row [of "st\<lparr>in_table := True\<rparr>" p lib r d t v rest ts] that a
    by simp
  with h show "\<forall>r d t v rest ts.
         non_empty_cells lib r = d # t # v # rest \<and> param_re lib d = None \<and>
         \<not> (lower lib d = ''date'' \<and> lower lib t = ''time'') \<and>
         to_datetime lib (d @ '' '' @ t) = Some ts \<longrightarrow>
         out (scan_row lib (scan_row lib st hdr) r) =
           out st @ [(tz_localize lib ts, p, to_numeric lib (remove_commas v),
                      cur_safe_min st, cur_safe_max st)]"
    by auto
next
  assume "non_empty_cells lib hdr = [c0, c1] \<and> param_re lib c0 = None"
  then show "scan_row lib st hdr = st"
    by (intro scan_row_short) auto
qed

theorem three_cell_table_header_opens_table_witness:
  "read_csv_frame example_quality_table \<and> read_csv_frame two_cell_header_table \<and>
   in_table (scan_row example_library
      (foldl (scan_row example_library) initial_state (take 1 (rows example_quality_table)))
      [''Date'', ''Time'', ''Value'']) \<and>
   out (scan_row example_library
      (scan_row example_library
        (foldl (scan_row example_library) initial_state (take 1 (rows example_quality_table)))
        [''Date'', ''Time'', ''Value''])
      [''01/01/2024'', ''10:00'', ''7.2'']) =
     [(Some 1704083400000000000, ''pH (pH)'', Some (36 / 5),
       Some (Some (13 / 2)), Some (Some (17 / 2)))] \<and>
   scan_row example_library
      (foldl (scan_row example_library) initial_state (take 1 (rows example_quality_table)))
      [''Date'', ''Time'', []] =
     foldl (scan_row example_library) initial_state (take 1 (rows example_quality_table))"
proof -
  let ?st = "foldl (scan_row example_library) initial_state (take 1 (rows example_quality_table))"
  let ?hdr = "[''Date'', ''Time'', ''Value'']"
  let ?r = "[''01/01/2024'', ''10:00'', ''7.2'']"
  have 0: "read_csv_frame example_quality_table" "read_csv_frame two_cell_header_table"
    by code_simp+
  have 1: "cur_safe_min ?st = Some (Some (13 / 2))" "cur_safe_max ?st = Some (Some (17 / 2))"
    "out ?st = []"
    unfolding example_state_1 by simp_all
  have 2: "current_param ?st = Some ''pH (pH)'' \<and> ''pH (pH)'' \<noteq> [] \<and>
           non_empty_cells example_library ?hdr = ''Date'' # ''Time'' # ''Value'' # [] \<and>
           param_re example_library ''Date'' = None \<and>
           lower example_library ''Date'' = ''date'' \<and> lower example_library ''Time'' = ''time''"
    by code_simp
  have 3: "non_empty_cells example_library ?r = ''01/01/2024'' # ''10:00'' # ''7.2'' # [] \<and>
        param_re example_library ''01/01/2024'' = None \<and>
        \<not> (lower example_library ''01/01/2024'' = ''date'' \<and>
           lower example_library ''10:00'' = ''time'') \<and>
        to_datetime example_library (''01/01/2024'' @ '' '' @ ''10:00'') =
          Some 1704103200000000000"
    by code_simp
  have 4: "tz_localize example_library 1704103200000000000 = Some 1704083400000000000"
    "to_numeric example_library (remove_commas ''7.2'') = Some (36 / 5)"
    by code_simp+
  have 5: "non_empty_cells example_library [''Date'', ''Time'', []] = [''Date'', ''Time''] \<and>
           param_re example_library ''Date'' = None"
    by code_simp
  note header = three_cell_table_header_opens_table
                  [of ?st "''pH (pH)''" example_library ?hdr "''Date''" "''Time''" "''Value''" "[]",
                   THEN conjunct1, THEN mp, OF 2]
  note short = three_cell_table_header_opens_table
                  [of ?st _ example_library "[''Date'', ''Time'', []]" "''Date''" "''Time''",
                   THEN conjunct2, THEN mp, OF 5]
  from header [THEN conjunct2, rule_format, OF 3] header [THEN conjunct1] short 0 4 1
  show ?thesis by simp
qed

text \<open>
  A table whose header row has two cells that are not empty: \<open>in_table\<close> stays false after
  it, and the data row after it is not read.
\<close>

theorem two_cell_table_header_ignored:
  "read_csv_frame two_cell_header_table \<and>
   \<not> in_table (foldl (scan_row example_library) initial_state
                 (take 2 (rows two_cell_header_table))) \<and>
   load_quality_csv example_library two_cell_header_table =
     Columns_Only [''timestamp'', ''parameter'', ''value'', ''safe_min'', ''safe_max'']"
  by code_simp

section \<open>Properties of the aggregation engine\<close>

subsection \<open>Compliance rollup\<close>

lemma in_range_iff:
  "in_range r \<longleftrightarrow>
     (\<exists>lo v hi. safe_min r = Float (Some lo) \<and> val r = Some v \<and> safe_max r = Float (Some hi) \<and>
                 lo \<le> v \<and> v \<le> hi)"
  by (auto simp: in_range_def ge_f_def le_f_def split: option.splits bound.splits)

lemma in_range_column_eq:
  "in_range_column q = (if float_bounds q then Inr (map in_range q) else Inl TypeError)"
  by (auto simp: in_range_column_def float_bounds_def list_all_iff list_ex_iff)

lemma set_groupby:
  "set (groupby key xs) = (\<lambda>k. (k, filter (\<lambda>x. key x = k) xs)) ` key ` set xs"
  by (simp add: groupby_def)

lemma quality_daily_compliance_eq:
  "quality_daily_compliance lib quality =
     (if \<not> float_bounds (records quality) then Inl TypeError
      else case quality of
             Columns_Only cs \<Rightarrow> Inl AttributeError
           | Frame cs rs \<Rightarrow>
               Inr (sort_key (\<lambda>row. (c_parameter row, c_date row))
                      (map (\<lambda>(k, g). compliance_agg k g)
                         (groupby (\<lambda>r. (parameter r, dt_date lib (timestamp r))) rs))))"
  by (simp add: quality_daily_compliance_def in_range_column_eq split: frame.splits)

lemma set_quality_daily_compliance:
  assumes "quality_daily_compliance lib quality = Inr rollup"
  shows "set rollup =
     (\<lambda>(p, d). compliance_agg (p, d) (readings_on lib p d (records quality))) `
       (\<lambda>q. (parameter q, dt_date lib (timestamp q))) ` set (records quality)"
proof -
  from assms show ?thesis
    by (cases quality)
       (auto simp: quality_daily_compliance_eq set_groupby image_image case_prod_unfold
                   readings_on_def
             split: if_splits)
qed

lemma quality_daily_compliance_returns:
  "float_bounds rs \<Longrightarrow> \<exists>rollup. quality_daily_compliance lib (Frame cs rs) = Inr rollup"
  by (simp add: quality_daily_compliance_eq)

lemma breaches_compliance_agg:
  "breaches (compliance_agg k g) = int (length (filter (\<lambda>q. \<not> in_range q) g))"
  by (simp add: compliance_agg_def Let_def comp_def)


lemma example_compliance:
  "quality_daily_compliance example_library (Frame quality_columns example_quality) =
     Inr [\<lparr>c_parameter = ''TDS'', c_date = 19723, pct_in_range = Some (200 / 3),
           breaches = 1, c_readings = 3, avg_value = Some (65 / 3),
           c_min_value = Some 10, c_max_value = Some 30\<rparr>]"
  by code_simp

lemma unknown_range_frame:
  "load_quality_csv example_library unknown_range_table =
     Frame [''timestamp'', ''parameter'', ''value'', ''safe_min'', ''safe_max'']
       [\<lparr>timestamp = 1704083400000000000, parameter = ''TDS (TDS)'', val = Some (36 / 5),
         safe_min = PyNone, safe_max = PyNone\<rparr>]"
  by code_simp


subsection \<open>Readings without a value\<close>

lemma not_in_range_nan: "val r = None \<Longrightarrow> \<not> in_range r"
  by (simp add: in_range_iff)

lemma pct_compliance_agg:
  "g \<noteq> [] \<Longrightarrow>
   pct_in_range (compliance_agg k g) = Some (100 * real (length (filter in_range g)) / real (length g))"
  by (simp add: compliance_agg_def Let_def mean_bool_def comp_def)

lemma readings_compliance_agg: "c_readings (compliance_agg k g) = length g"
  by (simp add: compliance_agg_def Let_def)

lemma key_compliance_agg: "c_parameter (compliance_agg k g) = fst k" "c_date (compliance_agg k g) = snd k"
  by (simp_all add: compliance_agg_def Let_def)

lemma readings_on_insert:
  "readings_on lib (parameter r) (dt_date lib (timestamp r)) (xs @ r # ys) =
     readings_on lib (parameter r) (dt_date lib (timestamp r)) xs @ r #
     readings_on lib (parameter r) (dt_date lib (timestamp r)) ys"
  by (simp add: readings_on_def)

lemma float_bounds_remove: "float_bounds (xs @ r # ys) \<Longrightarrow> float_bounds (xs @ ys)"
  by (simp add: float_bounds_def)

text \<open>
  Claim C10, as the code has it. A reading whose value is NaN is not in range. The rollup
  of a frame that holds it, and whose columns of bounds are float columns, returns, and
  the row of its parameter and date counts it as a breach and as a reading: next to the other readings of that parameter and date, the breach count and
  the reading count are one more, and \<open>pct_in_range\<close> is the share of in-range readings
  among all of them, the NaN reading included. Against the rollup of the frame without the
  reading, the percentage is lower when another reading of the group is in range; when
  none is, it is 0 in both; and when the group has no other reading, the rollup without
  the reading has no row for it.
\<close>

theorem nan_value_counts_as_breach:
  assumes "val r = None" and "float_bounds (xs @ r # ys)"
  shows
   "\<not> in_range r \<and>
    (\<exists>rollup. quality_daily_compliance lib (Frame cs (xs @ r # ys)) = Inr rollup \<and>
       (\<exists>row \<in> set rollup.
          c_parameter row = parameter r \<and> c_date row = dt_date lib (timestamp r) \<and>
          breaches row =
            int (length (filter (\<lambda>q. \<not> in_range q)
                           (readings_on lib (parameter r) (dt_date lib (timestamp r)) (xs @ ys)))) + 1 \<and>
          c_readings row =
            length (readings_on lib (parameter r) (dt_date lib (timestamp r)) (xs @ ys)) + 1 \<and>
          pct_in_range row =
            Some (100 * real (length (filter in_range
                                        (readings_on lib (parameter r) (dt_date lib (timestamp r)) (xs @ ys)))) /
                  real (length (readings_on lib (parameter r) (dt_date lib (timestamp r)) (xs @ ys)) + 1)))) \<and>
    (\<exists>rollup'. quality_daily_compliance lib (Frame cs (xs @ ys)) = Inr rollup' \<and>
       (readings_on lib (parameter r) (dt_date lib (timestamp r)) (xs @ ys) = [] \<longrightarrow>
          \<not> (\<exists>row' \<in> set rollup'.
                c_parameter row' = parameter r \<and> c_date row' = dt_date lib (timestamp r))) \<and>
       (\<forall>row' \<in> set rollup'.
          c_parameter row' = parameter r \<and> c_date row' = dt_date lib (timestamp r) \<longrightarrow>
          pct_in_range row' =
            Some (100 * real (length (filter in_range
                                        (readings_on lib (parameter r) (dt_date lib (timestamp r)) (xs @ ys)))) /
                  real (length (readings_on lib (parameter r) (dt_date lib (timestamp r)) (xs @ ys)))) \<and>
          (filter in_range (readings_on lib (parameter r) (dt_date lib (timestamp r)) (xs @ ys)) \<noteq> [] \<longrightarrow>
           100 * real (length (filter in_range
                                (readings_on lib (parameter r) (dt_date lib (timestamp r)) (xs @ ys)))) /
            real (length (readings_on lib (parameter r) (dt_date lib (timestamp r)) (xs @ ys)) + 1)
           < 100 * real (length (filter in_range
                                (readings_on lib (parameter r) (dt_date lib (timestamp r)) (xs @ ys)))) /
            real (length (readings_on lib (parameter r) (dt_date lib (timestamp r)) (xs @ ys)))) \<and>
          (filter in_range (readings_on lib (parameter r) (dt_date lib (timestamp r)) (xs @ ys)) = [] \<longrightarrow>
           100 * real (length (filter in_range
                                (readings_on lib (parameter r) (dt_date lib (timestamp r)) (xs @ ys)))) /
            real (length (readings_on lib (parameter r) (dt_date lib (timestamp r)) (xs @ ys)) + 1) = 0 \<and>
           100 * real (length (filter in_range
                                (readings_on lib (parameter r) (dt_date lib (timestamp r)) (xs @ ys)))) /
            real (length (readings_on lib (parameter r) (dt_date lib (timestamp r)) (xs @ ys))) = 0)))"
proof -
  let ?p = "parameter r" and ?d = "dt_date lib (timestamp r)"
  let ?g = "readings_on lib ?p ?d (xs @ ys)"
  let ?g' = "readings_on lib ?p ?d (xs @ r # ys)"
  let ?k = "real (length (filter in_range ?g))"
  have nr: "\<not> in_range r" using assms(1) by (rule not_in_range_nan)
  from quality_daily_compliance_returns [OF assms(2), of lib cs]
  obtain rollup where ret: "quality_daily_compliance lib (Frame cs (xs @ r # ys)) = Inr rollup" ..
  from quality_daily_compliance_returns [OF float_bounds_remove [OF assms(2)], of lib cs]
  obtain rollup' where ret': "quality_daily_compliance lib (Frame cs (xs @ ys)) = Inr rollup'" ..
  note mem = set_quality_daily_compliance [OF ret, simplified]
  note mem' = set_quality_daily_compliance [OF ret', simplified]
  have g': "?g' = readings_on lib ?p ?d xs @ r # readings_on lib ?p ?d ys"
    by (rule readings_on_insert)
  have len: "length ?g' = length ?g + 1"
    by (simp add: readings_on_def)
  have inr: "length (filter in_range ?g') = length (filter in_range ?g)"
    using nr by (simp add: readings_on_def)
  have out: "length (filter (\<lambda>q. \<not> in_range q) ?g') = length (filter (\<lambda>q. \<not> in_range q) ?g) + 1"
    using nr by (simp add: readings_on_def)
  let ?row = "compliance_agg (?p, ?d) ?g'"
  have m: "?row \<in> set rollup"
    unfolding mem by force
  have ne: "?g' \<noteq> []" by (simp add: g')
  have 1: "c_parameter ?row = ?p" "c_date ?row = ?d"
    by (simp_all add: key_compliance_agg)
  have 2: "breaches ?row = int (length (filter (\<lambda>q. \<not> in_range q) ?g)) + 1"
    by (simp add: breaches_compliance_agg out)
  have 3: "c_readings ?row = length ?g + 1"
    by (simp add: readings_compliance_agg len)
  have 4: "pct_in_range ?row = Some (100 * ?k / real (length ?g + 1))"
    using pct_compliance_agg [OF ne, of "(?p, ?d)"] by (simp only: inr len)
  have A: "\<exists>row \<in> set rollup.
       c_parameter row = ?p \<and> c_date row = ?d \<and>
       breaches row = int (length (filter (\<lambda>q. \<not> in_range q) ?g)) + 1 \<and>
       c_readings row = length ?g + 1 \<and>
       pct_in_range row = Some (100 * ?k / real (length ?g + 1))"
    using m 1 2 3 4 by blast
  have key: "?g \<noteq> [] \<and> row' = compliance_agg (?p, ?d) ?g"
    if row': "row' \<in> set rollup'" and k: "c_parameter row' = ?p \<and> c_date row' = ?d"
    for row'
  proof -
    from row' obtain q where q: "q \<in> set (xs @ ys)"
      and eq: "row' = compliance_agg (parameter q, dt_date lib (timestamp q))
                        (readings_on lib (parameter q) (dt_date lib (timestamp q)) (xs @ ys))"
      unfolding mem' by auto
    from k have k': "parameter q = ?p" "dt_date lib (timestamp q) = ?d"
      by (simp_all add: eq key_compliance_agg)
    have "q \<in> set ?g" using q k' by (simp add: readings_on_def)
    then have "?g \<noteq> []" by auto
    then show ?thesis using eq k' by simp
  qed
  have C: "?g = [] \<longrightarrow> \<not> (\<exists>row' \<in> set rollup'. c_parameter row' = ?p \<and> c_date row' = ?d)"
    using key by blast
  have B: "pct_in_range row' = Some (100 * ?k / real (length ?g)) \<and>
       (filter in_range ?g \<noteq> [] \<longrightarrow>
        100 * ?k / real (length ?g + 1) < 100 * ?k / real (length ?g)) \<and>
       (filter in_range ?g = [] \<longrightarrow>
        100 * ?k / real (length ?g + 1) = 0 \<and> 100 * ?k / real (length ?g) = 0)"
    if row': "row' \<in> set rollup'"
      and k: "c_parameter row' = ?p \<and> c_date row' = ?d"
    for row'
  proof -
    from key [OF row' k] have gne: "?g \<noteq> []" and eq: "row' = compliance_agg (?p, ?d) ?g"
      by simp_all
    from gne have pos: "0 < real (length ?g)" by simp
    have p: "pct_in_range row' = Some (100 * ?k / real (length ?g))"
      using pct_compliance_agg [OF gne] by (simp add: eq)
    have lt: "100 * ?k / real (length ?g + 1) < 100 * ?k / real (length ?g)"
      if "filter in_range ?g \<noteq> []"
    proof -
      from that have "0 < 100 * ?k" by simp
      then show ?thesis using pos by (intro divide_strict_left_mono) simp_all
    qed
    have z: "100 * ?k / real (length ?g + 1) = 0 \<and> 100 * ?k / real (length ?g) = 0"
      if "filter in_range ?g = []"
      using that by simp
    from p lt z show ?thesis by blast
  qed
  from nr ret A ret' C B show ?thesis by blast
qed

lemma example_compliance_nan:
  "quality_daily_compliance example_library (Frame quality_columns (example_quality @ nan_reading # [])) =
     Inr [\<lparr>c_parameter = ''TDS'', c_date = 19723, pct_in_range = Some 50,
           breaches = 2, c_readings = 4, avg_value = Some (65 / 3),
           c_min_value = Some 10, c_max_value = Some 30\<rparr>]"
  by code_simp

theorem nan_value_counts_as_breach_witness:
  "val nan_reading = None \<and> float_bounds (example_quality @ nan_reading # []) \<and>
   \<not> in_range nan_reading \<and>
   quality_daily_compliance example_library (Frame quality_columns (example_quality @ nan_reading # [])) =
     Inr [\<lparr>c_parameter = ''TDS'', c_date = 19723, pct_in_range = Some 50,
           breaches = 2, c_readings = 4, avg_value = Some (65 / 3),
           c_min_value = Some 10, c_max_value = Some 30\<rparr>] \<and>
   quality_daily_compliance example_library (Frame quality_columns example_quality) =
     Inr [\<lparr>c_parameter = ''TDS'', c_date = 19723, pct_in_range = Some (200 / 3),
           breaches = 1, c_readings = 3, avg_value = Some (65 / 3),
           c_min_value = Some 10, c_max_value = Some 30\<rparr>]"
proof -
  have 1: "val nan_reading = None" by (simp add: nan_reading_def)
  have 2: "float_bounds (example_quality @ nan_reading # [])" by code_simp
  from nan_value_counts_as_breach [OF 1 2, of example_library quality_columns]
  have "\<not> in_range nan_reading" by (rule conjunct1)
  with 1 2 example_compliance_nan example_compliance show ?thesis by simp
qed

text \<open>
  A group whose only other reading is out of range: its percentage is 0 without the NaN
  reading and 0 with it, so that the NaN reading does not lower it.
\<close>

theorem nan_value_keeps_zero_percentage:
  "val nan_reading = None \<and>
   quality_daily_compliance example_library (Frame quality_columns (take 1 example_quality)) =
     Inr [\<lparr>c_parameter = ''TDS'', c_date = 19723, pct_in_range = Some 0,
           breaches = 1, c_readings = 1, avg_value = Some 10,
           c_min_value = Some 10, c_max_value = Some 10\<rparr>] \<and>
   quality_daily_compliance example_library
      (Frame quality_columns (take 1 example_quality @ nan_reading # [])) =
     Inr [\<lparr>c_parameter = ''TDS'', c_date = 19723, pct_in_range = Some 0,
           breaches = 2, c_readings = 2, avg_value = Some 10,
           c_min_value = Some 10, c_max_value = Some 10\<rparr>]"
  by code_simp

subsection \<open>Breach-event segmentation\<close>

text \<open>
  The test \<open>seg["in_range"].iloc[0] is False\<close> fails for every segment, as its left side
  is a \<open>numpy.bool_\<close> and not the object \<open>False\<close>: no event is ever appended.
\<close>

lemma is_False_iloc: "\<not> is_False (iloc column i)"
  by (simp add: is_False_def iloc_def)

lemma quality_breach_events_no_event:
  "quality_breach_events quality = Inl TypeError \<or>
   quality_breach_events quality = Inr (Columns_Only event_columns)"
  by (simp add: quality_breach_events_def is_False_iloc Let_def case_prod_unfold in_range_column_eq)

lemma single_breach_first_flag: "iloc (map in_range single_breach) 0 = NpBool False"
  by code_simp

text \<open>
  Claim C1 asks for one event for each maximal run of out-of-range readings, and so for
  one event of duration zero on a frame of a single out-of-range reading. On that frame
  the segmentation finds the run, whose first flag is false, and the function returns the
  frame of the event columns without a row.
\<close>

theorem quality_breach_events_single_breach:
  "segments single_breach = [single_breach] \<and> map in_range single_breach = [False] \<and>
   in_range_column single_breach = Inr [False] \<and>
   quality_breach_events
      (Frame [''timestamp'', ''parameter'', ''value'', ''safe_min'', ''safe_max''] single_breach) =
     Inr (Columns_Only [''parameter'', ''start'', ''end'', ''duration_min'', ''min_value'',
                        ''max_value'', ''readings''])"
  by code_simp

subsection \<open>Correlation against a named quality parameter\<close>

lemma sorted_distinct_keys:
  "sorted (sort (remdups xs))" "distinct (sort (remdups xs))" "set (sort (remdups xs)) = set xs"
  by simp_all

lemma flow_daily_eq:
  "flow_daily lib (Frame cs flow) =
     Inr (map (\<lambda>d. \<lparr>date = d,
                total_consumption = sum_list (map consumption (flow_on lib d flow)),
                mean_interval = mean (map consumption (flow_on lib d flow)),
                p95_interval = percentile (map consumption (flow_on lib d flow)) 95,
                d_readings = length (flow_on lib d flow)\<rparr>)
       (sort (remdups (map (\<lambda>f. dt_date lib (timestamp f)) flow))))"
proof -
  let ?ds = "sort (remdups (map (\<lambda>f. dt_date lib (timestamp f)) flow))"
  let ?rows = "map (\<lambda>d. \<lparr>date = d,
                total_consumption = sum_list (map consumption (flow_on lib d flow)),
                mean_interval = mean (map consumption (flow_on lib d flow)),
                p95_interval = percentile (map consumption (flow_on lib d flow)) 95,
                d_readings = length (flow_on lib d flow)\<rparr>) ?ds"
  have 1: "map (\<lambda>(d, g). \<lparr>date = d,
                        total_consumption = sum_list (map consumption g),
                        mean_interval = mean (map consumption g),
                        p95_interval = percentile (map consumption g) 95,
                        d_readings = length g\<rparr>)
          (groupby (\<lambda>r. dt_date lib (timestamp r)) flow) = ?rows"
    by (simp add: groupby_def flow_on_def comp_def)
  have "map date ?rows = ?ds" by (simp add: comp_def)
  then have "sorted (map date ?rows)" by (simp only: sorted_distinct_keys)
  then have "sort_key date ?rows = ?rows" by (rule sort_key_id_if_sorted)
  then show ?thesis unfolding flow_daily_def frame.case 1 by (rule arg_cong)
qed

lemma flow_daily_columns_only: "flow_daily lib (Columns_Only cs) = Inl AttributeError"
  by (simp add: flow_daily_def)

lemma daily_humidity_eq:
  "daily_humidity lib h =
     map (\<lambda>d. (d, nanmean (map val (filter (\<lambda>q. dt_date lib (timestamp q) = d) h))))
       (sort (remdups (map (\<lambda>q. dt_date lib (timestamp q)) h)))"
  by (simp add: daily_humidity_def groupby_def comp_def)

lemma filter_key_distinct:
  assumes "distinct hs"
  shows "filter (\<lambda>(d, hm). d = x) (map (\<lambda>d. (d, F d)) hs) = (if x \<in> set hs then [(x, F x)] else [])"
  using assms by (induction hs) auto

lemma merge_on_date_map:
  assumes "distinct hs" and "\<And>d. date (R d) = d"
  shows "merge_on_date (map R ds) (map (\<lambda>d. (d, F d)) hs) =
           map (\<lambda>d. \<lparr>j_date = d, j_total_consumption = total_consumption (R d), humidity = F d\<rparr>)
             (filter (\<lambda>d. d \<in> set hs) ds)"
  by (induction ds) (simp_all add: merge_on_date_def filter_key_distinct [OF assms(1)] assms(2))

lemma merged_eq_joined_table:
  "flow_daily lib (Frame cs flow) = Inr fd \<Longrightarrow>
   merge_on_date fd (daily_humidity lib (filter (\<lambda>r. parameter r = name) quality)) =
     joined_table lib name flow quality"
proof -
  assume fd: "flow_daily lib (Frame cs flow) = Inr fd"
  let ?h = "filter (\<lambda>r. parameter r = name) quality"
  let ?hs = "sort (remdups (map (\<lambda>q. dt_date lib (timestamp q)) ?h))"
  let ?ds = "sort (remdups (map (\<lambda>f. dt_date lib (timestamp f)) flow))"
  let ?R = "\<lambda>d. \<lparr>date = d,
                total_consumption = sum_list (map consumption (flow_on lib d flow)),
                mean_interval = mean (map consumption (flow_on lib d flow)),
                p95_interval = percentile (map consumption (flow_on lib d flow)) 95,
                d_readings = length (flow_on lib d flow)\<rparr>"
  let ?F = "\<lambda>d. nanmean (map val (readings_on lib name d quality))"
  have r: "filter (\<lambda>q. dt_date lib (timestamp q) = d) ?h = readings_on lib name d quality" for d
    by (simp add: readings_on_def)
  have f: "filter (\<lambda>d. d \<in> set ?hs) ?ds = filter (\<lambda>d. readings_on lib name d quality \<noteq> []) ?ds"
  proof (rule filter_cong [OF refl])
    fix d
    have "d \<in> set ?hs \<longleftrightarrow> (\<exists>q \<in> set quality. parameter q = name \<and> dt_date lib (timestamp q) = d)"
      by force
    also have "\<dots> \<longleftrightarrow> readings_on lib name d quality \<noteq> []"
      by (auto simp: readings_on_def filter_empty_conv)
    finally show "d \<in> set ?hs \<longleftrightarrow> readings_on lib name d quality \<noteq> []" .
  qed
  from fd have fd': "fd = map ?R ?ds" unfolding flow_daily_eq by simp
  have "merge_on_date fd (daily_humidity lib ?h) =
          merge_on_date (map ?R ?ds) (map (\<lambda>d. (d, ?F d)) ?hs)"
    unfolding fd' daily_humidity_eq r ..
  also have "\<dots> = map (\<lambda>d. \<lparr>j_date = d, j_total_consumption = total_consumption (?R d),
                             humidity = ?F d\<rparr>) (filter (\<lambda>d. d \<in> set ?hs) ?ds)"
    by (rule merge_on_date_map) simp_all
  also have "\<dots> = joined_table lib name flow quality"
    unfolding joined_table_def f by simp
  finally show ?thesis .
qed

text \<open>
  Claim C4, as the code has it. On a flow frame of columns only, which is what the flow
  parser returns for a table without a header block, \<open>humidity_vs_flow_daily\<close> raises
  AttributeError, whatever the quality frame and the name. On every flow frame with typed
  columns it raises nothing. When the named parameter is absent from the quality frame, it returns
  the joined table of columns only and no correlation. Otherwise it returns the inner join
  on the date of the daily totals with the daily means of the parameter, whatever its
  number of rows; the correlation is None when the join has fewer than two rows or when
  every joined mean is NaN, and otherwise the Pearson correlation of the daily totals
  against the daily means.
\<close>

theorem humidity_vs_flow_daily_result:
  "humidity_vs_flow_daily lib flow quality name =
     (case flow of
        Columns_Only cs \<Rightarrow> Inl AttributeError
      | Frame cs fs \<Rightarrow>
          Inr (if filter (\<lambda>q. parameter q = name) (records quality) = []
               then (Columns_Only [''date'', ''total_consumption'', ''humidity''], None)
               else (Frame [''date'', ''total_consumption'', ''humidity'']
                       (joined_table lib name fs (records quality)),
                     if length (joined_table lib name fs (records quality)) < 2 \<or>
                        list_all (\<lambda>row. humidity row = None)
                          (joined_table lib name fs (records quality))
                     then None
                     else Some (corr (joined_table lib name fs (records quality))))))"
proof (cases flow)
  case (Columns_Only cs)
  then show ?thesis
    by (simp add: humidity_vs_flow_daily_def flow_daily_columns_only)
next
  case (Frame cs fs)
  obtain fd where fd: "flow_daily lib (Frame cs fs) = Inr fd"
    unfolding flow_daily_eq by blast
  note m = merged_eq_joined_table [OF fd, of name "records quality"]
  show ?thesis
    unfolding Frame humidity_vs_flow_daily_def fd
    by (auto simp: Let_def m joined_columns_def list_all_iff list_ex_iff)
qed

lemma three_day_joined:
  "joined_table example_library ''HUMIDITY (HUMIDITY)'' three_day_flow three_day_humidity =
     [\<lparr>j_date = 19723, j_total_consumption = 10, humidity = Some 40\<rparr>,
      \<lparr>j_date = 19724, j_total_consumption = 20, humidity = Some 50\<rparr>,
      \<lparr>j_date = 19725, j_total_consumption = 30, humidity = Some 60\<rparr>]"
  by code_simp

lemma one_day_joined:
  "joined_table example_library ''HUMIDITY (HUMIDITY)'' one_day_flow one_day_humidity =
     [\<lparr>j_date = 19723, j_total_consumption = 10, humidity = Some 40\<rparr>]"
  by code_simp

lemma one_day_present:
  "filter (\<lambda>r. parameter r = ''HUMIDITY (HUMIDITY)'') one_day_humidity \<noteq> []"
  by code_simp

lemma three_day_present:
  "filter (\<lambda>r. parameter r = ''HUMIDITY (HUMIDITY)'') three_day_humidity \<noteq> []"
  by code_simp

lemma three_day_corr:
  "corr [\<lparr>j_date = 19723, j_total_consumption = 10, humidity = Some 40\<rparr>,
         \<lparr>j_date = 19724, j_total_consumption = 20, humidity = Some 50\<rparr>,
         \<lparr>j_date = 19725, j_total_consumption = 30, humidity = Some 60\<rparr>] = Some 1"
  by (simp add: corr_def List.map_filter_def pearson_def mean_def Let_def)

lemma headless_flow_frame:
  "read_csv_frame headless_table \<and>
   load_flow_csv example_library headless_table =
     Inr (Columns_Only [''timestamp'', ''totalizer'', ''consumption''])"
  by code_simp

theorem humidity_vs_flow_daily_result_witness:
  "humidity_vs_flow_daily example_library
      (Frame [''timestamp'', ''totalizer'', ''consumption''] three_day_flow)
      (Frame [''timestamp'', ''parameter'', ''value'', ''safe_min'', ''safe_max''] three_day_humidity)
      ''HUMIDITY (HUMIDITY)'' =
     Inr (Frame [''date'', ''total_consumption'', ''humidity'']
            [\<lparr>j_date = 19723, j_total_consumption = 10, humidity = Some 40\<rparr>,
             \<lparr>j_date = 19724, j_total_consumption = 20, humidity = Some 50\<rparr>,
             \<lparr>j_date = 19725, j_total_consumption = 30, humidity = Some 60\<rparr>],
          Some (Some 1)) \<and>
   humidity_vs_flow_daily example_library
      (Frame [''timestamp'', ''totalizer'', ''consumption''] three_day_flow)
      (Frame [''timestamp'', ''parameter'', ''value'', ''safe_min'', ''safe_max''] three_day_humidity)
      ''TDS'' =
     Inr (Columns_Only [''date'', ''total_consumption'', ''humidity''], None)"
proof -
  have absent: "filter (\<lambda>r. parameter r = ''TDS'') three_day_humidity = []"
    by code_simp
  from humidity_vs_flow_daily_result
         [of example_library "Frame [''timestamp'', ''totalizer'', ''consumption''] three_day_flow"
             "Frame [''timestamp'', ''parameter'', ''value'', ''safe_min'', ''safe_max''] three_day_humidity"
             "''HUMIDITY (HUMIDITY)''"]
       humidity_vs_flow_daily_result
         [of example_library "Frame [''timestamp'', ''totalizer'', ''consumption''] three_day_flow"
             "Frame [''timestamp'', ''parameter'', ''value'', ''safe_min'', ''safe_max''] three_day_humidity"
             "''TDS''"]
       three_day_present absent
  show ?thesis
    by (simp add: three_day_joined three_day_corr)
qed

text \<open>
  With one joined day the table that is returned has one row: it is not empty. And on the
  frame that the flow parser returns for a table without a header block, the function
  raises, with the parameter present and with the parameter absent.
\<close>

theorem humidity_vs_flow_daily_one_joined_day:
  "humidity_vs_flow_daily example_library
      (Frame [''timestamp'', ''totalizer'', ''consumption''] one_day_flow)
      (Frame [''timestamp'', ''parameter'', ''value'', ''safe_min'', ''safe_max''] one_day_humidity)
      ''HUMIDITY (HUMIDITY)'' =
     Inr (Frame [''date'', ''total_consumption'', ''humidity'']
            [\<lparr>j_date = 19723, j_total_consumption = 10, humidity = Some 40\<rparr>], None) \<and>
   read_csv_frame headless_table \<and>
   load_flow_csv example_library headless_table =
     Inr (Columns_Only [''timestamp'', ''totalizer'', ''consumption'']) \<and>
   humidity_vs_flow_daily example_library
      (Columns_Only [''timestamp'', ''totalizer'', ''consumption''])
      (Frame [''timestamp'', ''parameter'', ''value'', ''safe_min'', ''safe_max''] one_day_humidity)
      ''HUMIDITY (HUMIDITY)'' = Inl AttributeError \<and>
   humidity_vs_flow_daily example_library
      (Columns_Only [''timestamp'', ''totalizer'', ''consumption''])
      (Frame [''timestamp'', ''parameter'', ''value'', ''safe_min'', ''safe_max''] one_day_humidity)
      ''TDS'' = Inl AttributeError"
proof -
  have fd: "flow_daily example_library (Frame [''timestamp'', ''totalizer'', ''consumption''] one_day_flow) =
              Inr [\<lparr>date = 19723, total_consumption = 10, mean_interval = 5,
                    p95_interval = 59 / 10, d_readings = 2\<rparr>]"
    by code_simp
  have m: "merge_on_date [\<lparr>date = 19723, total_consumption = 10, mean_interval = 5,
                           p95_interval = 59 / 10, d_readings = 2\<rparr>]
             (daily_humidity example_library
                (filter (\<lambda>r. parameter r = ''HUMIDITY (HUMIDITY)'') one_day_humidity)) =
           [\<lparr>j_date = 19723, j_total_consumption = 10, humidity = Some 40\<rparr>]"
    by code_simp
  show ?thesis
    using one_day_present headless_flow_frame
    by (simp add: humidity_vs_flow_daily_def Let_def fd m joined_columns_def flow_daily_columns_only)
qed


section \<open>Properties of the anomaly detector\<close>

subsection \<open>The median of a window that is constant up to its last entry\<close>

lemma insort_replicate: "insort c (replicate k c) = c # replicate k (c::real)"
  by (cases k) simp_all

lemma sort_replicate_snoc:
  "sort (replicate k c @ [x]) = (if x < c then x # replicate k c else replicate k c @ [x::real])"
proof (induction k)
  case 0
  then show ?case by simp
next
  case (Suc k)
  show ?case
  proof (cases "x < c")
    case True
    with Suc show ?thesis by (simp add: insort_replicate)
  next
    case False
    with Suc show ?thesis by (cases k) (simp_all add: not_less)
  qed
qed

lemma median_replicate_snoc:
  assumes "3 \<le> k"
  shows "median (replicate k c @ [x]) = c"
proof -
  let ?n = "Suc k"
  have 1: "?n div 2 < k" "?n div 2 - 1 < k" "0 < ?n div 2 - 1" "?n div 2 - 1 - 1 < k"
    "0 < ?n div 2" "?n div 2 - 1 < k"
    using assms by simp_all
  have A: "sort (replicate k c @ [x]) ! (?n div 2) = c"
    and B: "sort (replicate k c @ [x]) ! (?n div 2 - 1) = c"
    using 1 by (simp_all add: sort_replicate_snoc nth_Cons' nth_append del: div_Suc)
  have len: "length (sort (replicate k c @ [x])) = ?n" by simp
  have "(if odd ?n then c else (c + c) / 2) = c" by simp
  then show ?thesis unfolding median_def Let_def len A B .
qed

lemma median_almost_constant:
  assumes "4 \<le> length v" and "set (butlast v) \<subseteq> {c}"
  shows "median v = c"
proof (cases v rule: rev_cases)
  case Nil
  with assms show ?thesis by simp
next
  case (snoc ys l)
  with assms(2) have "ys = replicate (length ys) c"
    by (intro replicate_eqI) auto
  moreover have "3 \<le> length ys" using assms(1) snoc by simp
  ultimately have "median (replicate (length ys) c @ [l]) = c"
    by (intro median_replicate_snoc)
  with \<open>ys = replicate (length ys) c\<close> show ?thesis by (simp add: snoc)
qed

subsection \<open>Windows\<close>

lemma set_butlast_take: "set (butlast (take n xs)) \<subseteq> set (butlast xs)"
proof (cases "n \<le> length xs")
  case True
  then have "butlast (take n xs) = take (n - 1) xs" by (rule butlast_take)
  also have "\<dots> = take (n - 1) (butlast xs)"
    using True by (cases "n = 0") (simp_all add: take_butlast)
  finally show ?thesis by (simp add: set_take_subset)
next
  case False
  then show ?thesis by simp
qed

lemma set_butlast_drop: "set (butlast (drop n xs)) \<subseteq> set (butlast xs)"
  by (simp add: drop_butlast [symmetric] set_drop_subset)

lemma notna_append: "notna (xs @ ys) = notna xs @ notna ys"
  by (simp add: notna_def List.map_filter_def)

lemma set_notna: "set (notna xs) = {v. Some v \<in> set xs}"
  by (induction xs) (auto simp: notna_def List.map_filter_def)

lemma length_notna: "length (notna xs) \<le> length xs"
  by (simp add: notna_def List.map_filter_def)

lemma set_butlast_notna:
  assumes "set (butlast xs) \<subseteq> {None, Some c}"
  shows "set (butlast (notna xs)) \<subseteq> {c}"
proof (cases xs rule: rev_cases)
  case Nil
  then show ?thesis by (simp add: notna_def List.map_filter_def)
next
  case (snoc ys l)
  with assms have b: "set (notna ys) \<subseteq> {c}"
    by (auto simp: set_notna)
  show ?thesis
  proof (cases l)
    case None
    then have "notna xs = notna ys"
      by (simp add: snoc notna_append) (simp add: notna_def List.map_filter_def)
    then show ?thesis using b by (auto dest: in_set_butlastD)
  next
    case (Some v)
    then have "notna xs = notna ys @ [v]"
      by (simp add: snoc notna_append) (simp add: notna_def List.map_filter_def)
    then show ?thesis using b by simp
  qed
qed

lemma length_rolling_median: "length (rolling_median w mp xs) = length xs"
  by (simp add: rolling_median_def)

lemma rolling_median_nth:
  assumes "i < length xs"
  shows "rolling_median w mp xs ! i =
           (let v = notna (drop (i + 1 - w) (take (i + 1) xs))
            in if length v \<ge> mp then Some (median v) else None)"
  using assms by (simp add: rolling_median_def del: upt_Suc)

lemma rolling_median_almost_constant:
  assumes "set (butlast xs) \<subseteq> {None, Some c}" and "4 \<le> mp" and "i < length xs"
  shows "rolling_median w mp xs ! i \<in> {None, Some c}"
proof -
  let ?v = "notna (drop (i + 1 - w) (take (i + 1) xs))"
  have "set (butlast (drop (i + 1 - w) (take (i + 1) xs))) \<subseteq> set (butlast (take (i + 1) xs))"
    by (rule set_butlast_drop)
  also have "\<dots> \<subseteq> set (butlast xs)" by (rule set_butlast_take)
  also note assms(1)
  finally have "set (butlast ?v) \<subseteq> {c}" by (rule set_butlast_notna)
  then have m: "median ?v = c" if "mp \<le> length ?v"
    using that assms(2) by (intro median_almost_constant) simp_all
  show ?thesis
  proof (cases "mp \<le> length ?v")
    case True
    then show ?thesis using m assms(3) by (simp only: rolling_median_nth Let_def if_True) simp
  next
    case False
    then show ?thesis using assms(3) by (simp only: rolling_median_nth Let_def if_False) simp
  qed
qed

lemma rolling_median_warm_up:
  assumes "i < length xs" and "i + 1 < mp"
  shows "rolling_median w mp xs ! i = None"
proof -
  let ?v = "notna (drop (i + 1 - w) (take (i + 1) xs))"
  have "length ?v \<le> length (drop (i + 1 - w) (take (i + 1) xs))"
    by (rule length_notna)
  also have "\<dots> \<le> i + 1" by simp
  finally have "\<not> mp \<le> length ?v" using assms(2) by simp
  then show ?thesis using assms(1) by (simp only: rolling_median_nth Let_def if_False)
qed

subsection \<open>The columns of the result\<close>

lemma min_periods_ge: "6 \<le> min_periods window"
  by (simp add: min_periods_def)

lemma length_roll_med_column: "length (roll_med_column window z) = length z"
  by (simp add: roll_med_column_def length_rolling_median)

lemma length_mad_column: "length (mad_column window z) = length z"
  by (simp add: mad_column_def length_rolling_median length_roll_med_column)

lemma flow_anomalies_returns:
  "6 \<le> window \<Longrightarrow> \<exists>an. flow_anomalies flow window = Inr an"
  by (simp add: flow_anomalies_def Let_def)

lemma flow_anomalies_rows:
  assumes "flow_anomalies flow window = Inr an"
  shows "length an = length flow"
    and "i < length an \<Longrightarrow>
         an ! i =
           \<lparr>an_timestamp = timestamp (sort_key timestamp flow ! i),
            an_consumption = consumption (sort_key timestamp flow ! i),
            roll_med = roll_med_column window (sort_key timestamp flow) ! i,
            threshold = add3 (roll_med_column window (sort_key timestamp flow) ! i)
                          (replace0 (mad_column window (sort_key timestamp flow) ! i)),
            anomaly = gt_f (Some (consumption (sort_key timestamp flow ! i)))
                        (add3 (roll_med_column window (sort_key timestamp flow) ! i)
                           (replace0 (mad_column window (sort_key timestamp flow) ! i)))\<rparr>"
proof -
  let ?z = "sort_key timestamp flow"
  have an: "an = map (\<lambda>(r, m, d).
                  let th = add3 m (replace0 d)
                  in \<lparr>an_timestamp = timestamp r, an_consumption = consumption r,
                      roll_med = m, threshold = th,
                      anomaly = gt_f (Some (consumption r)) th\<rparr>)
                (zip ?z (zip (roll_med_column window ?z) (mad_column window ?z)))"
    using assms by (simp add: flow_anomalies_def Let_def split: if_splits)
  show "length an = length flow"
    by (simp add: an length_roll_med_column length_mad_column)
  show "an ! i = \<lparr>an_timestamp = timestamp (?z ! i),
            an_consumption = consumption (?z ! i),
            roll_med = roll_med_column window ?z ! i,
            threshold = add3 (roll_med_column window ?z ! i) (replace0 (mad_column window ?z ! i)),
            anomaly = gt_f (Some (consumption (?z ! i)))
                        (add3 (roll_med_column window ?z ! i)
                           (replace0 (mad_column window ?z ! i)))\<rparr>"
    if "i < length an"
    using that by (simp add: an length_roll_med_column length_mad_column Let_def)
qed

lemma gt_f_None: "\<not> gt_f x None"
  by (simp add: gt_f_def split: option.splits)

lemma no_flag_without_mad:
  assumes "d = None \<or> d = Some 0"
  shows "add3 m (replace0 d) = None" and "\<not> gt_f x (add3 m (replace0 d))"
  using assms by (auto simp: add3_def replace0_def gt_f_def split: option.splits)

lemma no_flag_without_median:
  "add3 None d = None" "\<not> gt_f x (add3 None d)"
  by (simp_all add: add3_def gt_f_def split: option.splits)

lemma mad_column_almost_constant:
  assumes "\<forall>r \<in> set (butlast z). consumption r = c" and "i < length z"
  shows "mad_column window z ! i \<in> {None, Some 0}"
proof -
  let ?mp = "min_periods window"
  let ?cons = "map (\<lambda>r. Some (consumption r)) z"
  let ?med = "roll_med_column window z"
  let ?dev = "map (\<lambda>(r, m). abs_dev (Some (consumption r)) m) (zip z ?med)"
  have mp: "4 \<le> ?mp" using min_periods_ge [of window] by simp
  have "set (butlast ?cons) \<subseteq> {None, Some c}"
    using assms(1) by (auto simp: map_butlast [symmetric])
  then have med: "?med ! j \<in> {None, Some c}" if "j < length z" for j
    unfolding roll_med_column_def using that mp
    by (intro rolling_median_almost_constant) simp_all
  have len: "length ?dev = length z" by (simp add: length_roll_med_column)
  have "x \<in> {None, Some 0}" if "x \<in> set (butlast ?dev)" for x
  proof -
    from that obtain j where j: "j < length (butlast ?dev)" and x: "x = butlast ?dev ! j"
      by (auto simp: in_set_conv_nth)
    from j have j': "j < length z - 1" by (simp add: len)
    then have jz: "j < length z" by simp
    have "z ! j \<in> set (butlast z)"
      using j' by (metis length_butlast nth_butlast nth_mem)
    with assms(1) have c: "consumption (z ! j) = c" by blast
    have "x = ?dev ! j" using x j by (simp add: nth_butlast)
    also have "\<dots> = abs_dev (Some c) (?med ! j)"
      using jz c by (simp add: length_roll_med_column)
    finally show ?thesis using med [OF jz] by (auto simp: abs_dev_def)
  qed
  then have "set (butlast ?dev) \<subseteq> {None, Some 0}" by blast
  then have "rolling_median (nat window) ?mp ?dev ! i \<in> {None, Some 0}"
    using mp assms(2) len by (intro rolling_median_almost_constant) simp_all
  then show ?thesis by (simp add: mad_column_def)
qed

text \<open>
  Claim C8. In every result of \<open>flow_anomalies\<close>, a point whose rolling MAD is exactly zero
  has no threshold and is not flagged. A series of constant consumption has no flagged
  point, and neither has a series that is constant up to its latest reading, whatever that
  reading is and whenever it comes, before the warm-up or after it; a point before the
  warm-up count \<open>min_periods\<close> is reached has no baseline, no threshold and no flag.
\<close>

theorem flow_anomalies_no_flag_at_zero_mad:
  assumes "flow_anomalies flow window = Inr an"
  shows "length an = length flow \<and>
     (\<forall>i < length an. mad_column window (sort_key timestamp flow) ! i = Some 0 \<longrightarrow>
        threshold (an ! i) = None \<and> \<not> anomaly (an ! i)) \<and>
     ((\<forall>r \<in> set flow. consumption r = c) \<longrightarrow> (\<forall>row \<in> set an. \<not> anomaly row)) \<and>
     ((\<forall>r \<in> set (butlast (sort_key timestamp flow)). consumption r = c) \<longrightarrow>
        (\<forall>row \<in> set an. \<not> anomaly row)) \<and>
     (\<forall>i < length an. i + 1 < min_periods window \<longrightarrow>
        roll_med (an ! i) = None \<and> threshold (an ! i) = None \<and> \<not> anomaly (an ! i))"
proof -
  let ?z = "sort_key timestamp flow"
  note row = flow_anomalies_rows [OF assms]
  have len: "length an = length ?z" by (simp add: row(1))
  have 1: "threshold (an ! i) = None \<and> \<not> anomaly (an ! i)"
    if "i < length an" "mad_column window ?z ! i = Some 0" for i
    using that by (simp add: row(2) no_flag_without_mad gt_f_None)
  have 3: "\<forall>row \<in> set an. \<not> anomaly row"
    if h: "\<forall>r \<in> set (butlast ?z). consumption r = c" for c
  proof
    fix x
    assume "x \<in> set an"
    then obtain i where i: "i < length an" and x: "x = an ! i"
      by (auto simp: in_set_conv_nth)
    from i have "i < length ?z" by (simp add: len)
    with h have "mad_column window ?z ! i \<in> {None, Some 0}"
      by (rule mad_column_almost_constant)
    then show "\<not> anomaly x"
      using i by (auto simp: x row(2) no_flag_without_mad gt_f_None)
  qed
  have 2: "\<forall>row \<in> set an. \<not> anomaly row" if h: "\<forall>r \<in> set flow. consumption r = c"
  proof -
    have "\<forall>r \<in> set (butlast ?z). consumption r = c"
      using h by (auto dest: in_set_butlastD)
    then show ?thesis by (rule 3)
  qed
  have 4: "roll_med (an ! i) = None \<and> threshold (an ! i) = None \<and> \<not> anomaly (an ! i)"
    if "i < length an" "i + 1 < min_periods window" for i
  proof -
    have "roll_med_column window ?z ! i = None"
      unfolding roll_med_column_def using that
      by (intro rolling_median_warm_up) (simp_all add: len)
    then show ?thesis using that(1) by (simp add: row(2) no_flag_without_median gt_f_None)
  qed
  from row(1) 1 2 3 4 show ?thesis by blast
qed

lemma outlier_flow_rows:
  "flow_anomalies outlier_flow 24 =
     Inr [\<lparr>an_timestamp = 1704083400000000000, an_consumption = 2,
           roll_med = None, threshold = None, anomaly = False\<rparr>,
          \<lparr>an_timestamp = 1704083700000000000, an_consumption = 2,
           roll_med = None, threshold = None, anomaly = False\<rparr>,
          \<lparr>an_timestamp = 1704084000000000000, an_consumption = 2,
           roll_med = None, threshold = None, anomaly = False\<rparr>,
          \<lparr>an_timestamp = 1704084300000000000, an_consumption = 2,
           roll_med = None, threshold = None, anomaly = False\<rparr>,
          \<lparr>an_timestamp = 1704084600000000000, an_consumption = 2,
           roll_med = None, threshold = None, anomaly = False\<rparr>,
          \<lparr>an_timestamp = 1704084900000000000, an_consumption = 1000,
           roll_med = Some 2, threshold = None, anomaly = False\<rparr>]"
  by code_simp

theorem flow_anomalies_no_flag_at_zero_mad_witness:
  "list_all (\<lambda>r. consumption r = 2) (butlast (sort_key timestamp outlier_flow)) \<and>
   consumption (last (sort_key timestamp outlier_flow)) = 1000 \<and>
   (case flow_anomalies outlier_flow 24 of
      Inl e \<Rightarrow> False
    | Inr an \<Rightarrow> length an = 6 \<and> list_all (\<lambda>row. \<not> anomaly row) an)"
proof -
  have 1: "list_all (\<lambda>r. consumption r = 2) (butlast (sort_key timestamp outlier_flow))"
    by code_simp
  have 2: "consumption (last (sort_key timestamp outlier_flow)) = 1000" by code_simp
  have 3: "length outlier_flow = 6" by code_simp
  from flow_anomalies_no_flag_at_zero_mad [OF outlier_flow_rows, of 2] 1 2 3
  show ?thesis by (simp add: outlier_flow_rows list_all_iff)
qed

end
